theory Spec2Isabelle
  imports Complex_Main "HOL-Library.List_Lexorder" "HOL-Library.Char_ord" "HOL-Library.Multiset"
begin

section \<open>EQS panel: loaded tables, centroids, map and distribution figures\<close>

text \<open>
  The program (\<^verbatim>\<open>app.py\<close>) reads three sheets of one workbook at import time,
  derives the sorted leader list and the per-leader centroids, and then serves two
  figure builders, \<^verbatim>\<open>build_map\<close> and \<^verbatim>\<open>build_bars_pie\<close>, that only read
  the loaded tables.

  Conventions of the embedding.
  \<^item> A pandas cell that is missing (NaN) is \<open>None\<close>. Coordinates are Python floats; they
    are embedded as \<open>real option\<close>: exact real arithmetic on the numbers, \<open>None\<close> for NaN.
    Rounding of float64 arithmetic is not part of these definitions. Where rounding
    decides a property, the centroid against the bounding box, the centroid computation
    is repeated with every arithmetic result rounded to float64 (\<open>groupby_mean_f64\<close>).
  \<^item> The cells of \<open>Serial\<close>, \<open>Modelo\<close> and \<open>ATA_Lider\<close> are text, as the annotation
    \<^verbatim>\<open>selected_leader: str | None\<close> has the leaders. A sheet whose text column pandas
    would load as numbers, or whose leader column mixes text and numbers (on which
    \<^verbatim>\<open>sorted\<close> raises \<open>TypeError\<close>), is outside the embedding.
  \<^item> A DataFrame is a list of column names together with its rows. Only the five columns
    the program ever reads have a field in \<open>row\<close>; the field of a column that is not in
    \<open>columns\<close> is never read, because every column access checks \<open>columns\<close> first and
    raises \<open>KeyError\<close> otherwise, as pandas does.
  \<^item> An exception is a value of \<open>error\<close>, and a function that may raise returns
    \<open>error + 'a\<close>.
  \<^item> Purely cosmetic figure attributes (marker sizes and colours, hover templates, axis
    domains, background colours, margins) are left out of \<open>figure\<close>.
\<close>

subsection \<open>Data\<close>

datatype error = FileNotFoundError | ValueError string | KeyError string

text \<open>Propagation of an exception: the rest runs only on a normal result.\<close>

fun bind_err :: "error + 'a \<Rightarrow> ('a \<Rightarrow> error + 'b) \<Rightarrow> error + 'b" where
  "bind_err (Inl e) f = Inl e"
| "bind_err (Inr v) f = f v"

record row =
  Serial :: "string option"
  Modelo :: "string option"
  ATA_Lider :: "string option"
  Latitude :: "real option"
  Longitude :: "real option"

record frame =
  columns :: "string list"
  rows :: "row list"

text \<open>
  The workbook on disk: its sheets by name. What is found at \<open>DATA_PATH\<close> is a
  \<open>workbook option\<close>, \<open>None\<close> when there is no file.
\<close>

type_synonym workbook = "(string \<times> frame) list"

definition DATA_PATH :: string where
  "DATA_PATH = ''data/Clusters_EQS_V2.xlsx''"

definition RESUMO_SHEET :: string where
  "RESUMO_SHEET = ''Resumo_Clusters_V2''"

definition ATAS_COORD_SHEET :: string where
  "ATAS_COORD_SHEET = ''ATAs_Coordenadas''"

definition EQUIP_SHEET :: string where
  "EQUIP_SHEET = ''Equipamentos_Clusterizados''"

subsection \<open>Reading a sheet\<close>

text \<open>
  \<^verbatim>\<open>pd.read_excel(DATA_PATH, sheet_name=...)\<close> raises \<open>FileNotFoundError\<close> when there is
  no file and \<open>ValueError\<close> when the workbook has no sheet of that name. With the default
  \<^verbatim>\<open>keep_default_na=True\<close> a text cell whose content is one of pandas' default NA
  strings (the empty string among them) is read as NaN. Other failures of the call (no
  Excel engine installed, a file that is no workbook) are not modelled.
\<close>

definition na_values :: "string list" where
  "na_values = ['''', ''#N/A'', ''#N/A N/A'', ''#NA'', ''-1.#IND'', ''-1.#QNAN'', ''-NaN'',
     ''-nan'', ''1.#IND'', ''1.#QNAN'', ''<NA>'', ''N/A'', ''NA'', ''NULL'', ''NaN'', ''None'',
     ''n/a'', ''nan'', ''null'']"

definition parse_text :: "string option \<Rightarrow> string option" where
  "parse_text c = (case c of None \<Rightarrow> None
                   | Some s \<Rightarrow> if s \<in> set na_values then None else Some s)"

definition parse_row :: "row \<Rightarrow> row" where
  "parse_row r = r\<lparr>Serial := parse_text (Serial r), Modelo := parse_text (Modelo r),
                   ATA_Lider := parse_text (ATA_Lider r)\<rparr>"

definition read_excel :: "workbook option \<Rightarrow> string \<Rightarrow> error + frame" where
  "read_excel file sheet_name =
     (case file of
        None \<Rightarrow> Inl FileNotFoundError
      | Some wb \<Rightarrow>
          (case map_of wb sheet_name of
             None \<Rightarrow> Inl (ValueError sheet_name)
           | Some sh \<Rightarrow> Inr (sh\<lparr>rows := map parse_row (rows sh)\<rparr>)))"

subsection \<open>Column access and row selection\<close>

text \<open>\<^verbatim>\<open>df[c]\<close>: the column's cells, or \<open>KeyError\<close> when the frame has no such column.\<close>

definition getcol :: "frame \<Rightarrow> string \<Rightarrow> (row \<Rightarrow> 'a) \<Rightarrow> error + 'a list" where
  "getcol df c field =
     (if c \<in> set (columns df) then Inr (map field (rows df)) else Inl (KeyError c))"

text \<open>\<^verbatim>\<open>df.dropna(subset=[c])\<close> keeps the rows whose cell in column \<open>c\<close> is present.\<close>

definition dropna :: "(row \<Rightarrow> 'a option) \<Rightarrow> frame \<Rightarrow> frame" where
  "dropna field df = df\<lparr>rows := filter (\<lambda>r. field r \<noteq> None) (rows df)\<rparr>"

text \<open>
  The normalisation loop over \<^verbatim>\<open>["Latitude", "Longitude"]\<close>, for one frame: each
  column is cleaned only if the frame has it.
\<close>

definition normalise :: "frame \<Rightarrow> frame" where
  "normalise df =
     (let df1 = (if ''Latitude'' \<in> set (columns df) then dropna Latitude df else df);
          df2 = (if ''Longitude'' \<in> set (columns df1) then dropna Longitude df1 else df1)
      in df2)"

text \<open>\<^verbatim>\<open>df[df["ATA_Lider"] == l]\<close>; a NaN cell is equal to no leader.\<close>

definition select_leader :: "frame \<Rightarrow> string \<Rightarrow> error + frame" where
  "select_leader df l =
     (if ''ATA_Lider'' \<in> set (columns df)
      then Inr (df\<lparr>rows := filter (\<lambda>r. ATA_Lider r = Some l) (rows df)\<rparr>)
      else Inl (KeyError ''ATA_Lider''))"

text \<open>\<^verbatim>\<open>df.empty\<close>: an axis of length zero.\<close>

definition empty_frame :: "frame \<Rightarrow> bool" where
  "empty_frame df \<longleftrightarrow> rows df = [] \<or> columns df = []"

subsection \<open>Leaders\<close>

text \<open>\<^verbatim>\<open>sorted(df_resumo["ATA_Lider"].dropna().unique())\<close>\<close>

definition leaders_of :: "frame \<Rightarrow> error + string list" where
  "leaders_of df_resumo =
     bind_err (getcol df_resumo ''ATA_Lider'' ATA_Lider)
       (\<lambda>cells. Inr (sort (remdups (List.map_filter id cells))))"

subsection \<open>Centroids\<close>

text \<open>
  \<^verbatim>\<open>df_eqp.groupby("ATA_Lider", as_index=False)\<close>, restricted to the columns
  \<open>Latitude\<close> and \<open>Longitude\<close>, then \<^verbatim>\<open>.mean()\<close>; a grouping or selected column
  that the frame does not have raises \<open>KeyError\<close>. The rows are visited once; every
  row with a leader adds its coordinates to that leader's running sums (a NaN coordinate
  is skipped, a NaN leader belongs to no group). The result has one row per group,
  ordered by leader, holding the two means.
\<close>

type_synonym stat = "real \<times> nat"

fun add_val :: "real option \<Rightarrow> stat \<Rightarrow> stat" where
  "add_val None a = a"
| "add_val (Some x) (s, n) = (s + x, Suc n)"

definition mean_of :: "stat \<Rightarrow> real option" where
  "mean_of a = (case a of (s, n) \<Rightarrow> if n = 0 then None else Some (s / real n))"

fun group_add :: "string \<Rightarrow> real option \<Rightarrow> real option \<Rightarrow> (string \<times> stat \<times> stat) list
    \<Rightarrow> (string \<times> stat \<times> stat) list" where
  "group_add k la lo [] = [(k, add_val la (0, 0), add_val lo (0, 0))]"
| "group_add k la lo ((k', a, b) # gs) =
     (if k = k' then (k', add_val la a, add_val lo b) # gs
      else (k', a, b) # group_add k la lo gs)"

definition group_step :: "(string \<times> stat \<times> stat) list \<Rightarrow> row \<Rightarrow> (string \<times> stat \<times> stat) list" where
  "group_step gs r =
     (case ATA_Lider r of None \<Rightarrow> gs | Some k \<Rightarrow> group_add k (Latitude r) (Longitude r) gs)"

text \<open>A centroid row: \<open>(ATA_Lider, Lat_Centroide, Lon_Centroide)\<close>.\<close>

type_synonym centroid = "string \<times> real option \<times> real option"

definition groupby_mean :: "frame \<Rightarrow> error + centroid list" where
  "groupby_mean df =
     (if ''ATA_Lider'' \<notin> set (columns df) then Inl (KeyError ''ATA_Lider'')
      else if ''Latitude'' \<notin> set (columns df) then Inl (KeyError ''Latitude'')
      else if ''Longitude'' \<notin> set (columns df) then Inl (KeyError ''Longitude'')
      else Inr (map (\<lambda>(k, a, b). (k, mean_of a, mean_of b))
                  (sort_key fst (foldl group_step [] (rows df)))))"

subsection \<open>Start-up\<close>

text \<open>The module-level state that the figure builders read.\<close>

record ctx =
  df_resumo :: frame
  df_atas :: frame
  df_eqp :: frame
  leaders :: "string list"
  df_centroids :: "centroid list"

text \<open>
  The module body up to the centroids, in the order of the source: three reads, the
  normalisation, the leader list, the centroids. The first exception ends it.
\<close>

definition startup :: "workbook option \<Rightarrow> error + ctx" where
  "startup file =
     bind_err (read_excel file RESUMO_SHEET) (\<lambda>resumo.
     bind_err (read_excel file ATAS_COORD_SHEET) (\<lambda>atas.
     bind_err (read_excel file EQUIP_SHEET) (\<lambda>eqp.
     let atas' = normalise atas; eqp' = normalise eqp in
     bind_err (leaders_of resumo) (\<lambda>ls.
     bind_err (groupby_mean eqp') (\<lambda>cs.
     Inr \<lparr>df_resumo = resumo, df_atas = atas', df_eqp = eqp', leaders = ls,
          df_centroids = cs\<rparr>)))))"

subsection \<open>Figures\<close>

text \<open>
  A trace of a figure. \<open>Scattergeo lon lat text customdata mode symbol name\<close> is a
  layer of map markers (\<open>text\<close> and \<open>customdata\<close> are empty when the source gives none,
  \<open>symbol\<close> is \<open>None\<close> for the default marker), \<open>Bar x y name\<close> a bar series and
  \<open>Pie labels values name\<close> a pie series.
\<close>

datatype trace =
    Scattergeo "real option list" "real option list" "string option list" "string option list"
      string "string option" string
  | Bar "string list" "nat list" string
  | Pie "string list" "nat list" string

type_synonym axis_range = "real option \<times> real option"

record figure =
  fig_data :: "trace list"
  fig_title :: "string option"
  lataxis_range :: "axis_range option"
  lonaxis_range :: "axis_range option"

text \<open>The star marker of the selected leader is the only trace with a marker symbol.\<close>

fun is_star :: "trace \<Rightarrow> bool" where
  "is_star (Scattergeo lon lat txt cd mode symbol name) = (symbol = Some ''star'')"
| "is_star _ = False"

subsection \<open>Float helpers\<close>

text \<open>
  Arithmetic with NaN (\<open>None\<close>) propagating, the column reductions \<^verbatim>\<open>.min()\<close> and
  \<^verbatim>\<open>.max()\<close>, which skip NaN cells and are NaN on a column without numbers, and
  Python's \<^verbatim>\<open>max(a, b)\<close>, which returns \<open>b\<close> only when \<open>b > a\<close> holds.
\<close>

fun fsub :: "real option \<Rightarrow> real option \<Rightarrow> real option" where
  "fsub (Some a) (Some b) = Some (a - b)"
| "fsub _ _ = None"

fun fadd :: "real option \<Rightarrow> real option \<Rightarrow> real option" where
  "fadd (Some a) (Some b) = Some (a + b)"
| "fadd _ _ = None"

fun fmul :: "real option \<Rightarrow> real \<Rightarrow> real option" where
  "fmul (Some a) b = Some (a * b)"
| "fmul None b = None"

fun py_max :: "real option \<Rightarrow> real \<Rightarrow> real option" where
  "py_max (Some a) b = (if b > a then Some b else Some a)"
| "py_max None b = None"

fun max_list :: "real list \<Rightarrow> real" where
  "max_list (x # xs) = (case xs of [] \<Rightarrow> x | _ \<Rightarrow> max x (max_list xs))"
| "max_list [] = 0"

definition col_min :: "real option list \<Rightarrow> real option" where
  "col_min cells =
     (let xs = List.map_filter id cells in if xs = [] then None else Some (min_list xs))"

definition col_max :: "real option list \<Rightarrow> real option" where
  "col_max cells =
     (let xs = List.map_filter id cells in if xs = [] then None else Some (max_list xs))"

subsection \<open>The map\<close>

text \<open>(A) All reference points, one grey layer, unless the table is empty.\<close>

definition atas_trace :: "frame \<Rightarrow> error + trace list" where
  "atas_trace atas =
     (if \<not> empty_frame atas then
        bind_err (getcol atas ''Longitude'' Longitude) (\<lambda>lon.
        bind_err (getcol atas ''Latitude'' Latitude) (\<lambda>lat.
        Inr [Scattergeo lon lat [] [] ''markers'' None ''ATAs Coordenadas (todas)'']))
      else Inr [])"

text \<open>
  (B) One layer per leader, in the order of \<open>leaders\<close>; a leader without rows is skipped.
  The name of the layer is \<^verbatim>\<open>f"Equipamentos - {l}"\<close> with an en dash (U+2013, three
  bytes in UTF-8) in place of the hyphen.
\<close>

definition en_dash :: string where
  "en_dash = [CHR 0xE2, CHR 0x80, CHR 0x93]"

definition equipment_trace :: "frame \<Rightarrow> string \<Rightarrow> error + trace option" where
  "equipment_trace eqp l =
     bind_err (select_leader eqp l) (\<lambda>dfc.
     if empty_frame dfc then Inr None
     else
       bind_err (getcol dfc ''Longitude'' Longitude) (\<lambda>lon.
       bind_err (getcol dfc ''Latitude'' Latitude) (\<lambda>lat.
       bind_err (getcol dfc ''Serial'' Serial) (\<lambda>txt.
       bind_err (getcol dfc ''Modelo'' Modelo) (\<lambda>cd.
       Inr (Some (Scattergeo lon lat txt cd ''markers'' None
                    (''Equipamentos '' @ en_dash @ '' '' @ l))))))))"

fun equipment_traces :: "frame \<Rightarrow> string list \<Rightarrow> error + trace list" where
  "equipment_traces eqp [] = Inr []"
| "equipment_traces eqp (l # ls) =
     (case equipment_trace eqp l of
        Inl e \<Rightarrow> Inl e
      | Inr t \<Rightarrow>
          (case equipment_traces eqp ls of
             Inl e \<Rightarrow> Inl e
           | Inr ts \<Rightarrow> Inr (case t of None \<Rightarrow> ts | Some tr \<Rightarrow> tr # ts)))"

text \<open>
  (C) The star of the selected leader and the viewport. The test
  \<^verbatim>\<open>selected_leader and selected_leader in leaders\<close> fails for \<^verbatim>\<open>None\<close>, for the
  empty string and for a string that is no leader. The name of the star layer is
  \<^verbatim>\<open>"ATA Lider (centroide)"\<close> with an acute accent on the first i of \<open>Lider\<close>.
\<close>

definition default_lataxis :: axis_range where
  "default_lataxis = (Some (- 34), Some 6)"

definition default_lonaxis :: axis_range where
  "default_lonaxis = (Some (- 75), Some (- 34))"

definition star_name :: string where
  "star_name = ''ATA L'' @ [CHR 0xC3, CHR 0xAD] @ ''der (centroide)''"

fun the_default :: "'a \<Rightarrow> 'a option \<Rightarrow> 'a" where
  "the_default d None = d"
| "the_default d (Some v) = v"

definition valid_selection :: "string list \<Rightarrow> string option \<Rightarrow> bool" where
  "valid_selection ls selected_leader =
     (case selected_leader of None \<Rightarrow> False | Some s \<Rightarrow> s \<noteq> [] \<and> s \<in> set ls)"

definition zoom :: "frame \<Rightarrow> error + axis_range \<times> axis_range" where
  "zoom dfc =
     bind_err (getcol dfc ''Latitude'' Latitude) (\<lambda>lats.
     bind_err (getcol dfc ''Longitude'' Longitude) (\<lambda>lons.
     let lat_min = col_min lats; lat_max = col_max lats;
         lon_min = col_min lons; lon_max = col_max lons;
         lat_pad = py_max (fmul (fsub lat_max lat_min) 0.20) 2;
         lon_pad = py_max (fmul (fsub lon_max lon_min) 0.20) 2
     in Inr ((fsub lat_min lat_pad, fadd lat_max lat_pad),
             (fsub lon_min lon_pad, fadd lon_max lon_pad))))"

definition star_and_view :: "ctx \<Rightarrow> string option \<Rightarrow> error + trace list \<times> axis_range \<times> axis_range" where
  "star_and_view c selected_leader =
     (if valid_selection (leaders c) selected_leader then
        (let sel = the_default [] selected_leader;
             row = filter (\<lambda>(k, lat_c, lon_c). k = sel) (df_centroids c)
         in case row of
              [] \<Rightarrow> Inr ([], default_lataxis, default_lonaxis)
            | (k, lat_c, lon_c) # _ \<Rightarrow>
                (let star = Scattergeo [lon_c] [lat_c] [Some sel] [] ''markers+text''
                              (Some ''star'') star_name
                 in bind_err (select_leader (df_eqp c) sel) (\<lambda>dfc.
                    if \<not> empty_frame dfc then
                      bind_err (zoom dfc) (\<lambda>(lat_rng, lon_rng). Inr ([star], lat_rng, lon_rng))
                    else Inr ([star], default_lataxis, default_lonaxis))))
      else Inr ([], default_lataxis, default_lonaxis))"

definition build_map :: "ctx \<Rightarrow> string option \<Rightarrow> error + figure" where
  "build_map c selected_leader =
     bind_err (atas_trace (df_atas c)) (\<lambda>tA.
     bind_err (equipment_traces (df_eqp c) (leaders c)) (\<lambda>tB.
     bind_err (star_and_view c selected_leader) (\<lambda>(tC, lat_rng, lon_rng).
     Inr \<lparr>fig_data = tA @ tB @ tC, fig_title = None,
          lataxis_range = Some lat_rng, lonaxis_range = Some lon_rng\<rparr>)))"

subsection \<open>The distribution\<close>

text \<open>
  \<^verbatim>\<open>Series.value_counts()\<close> counts every value that is not NaN, keeps the values in
  the order of their first occurrence, and then sorts the counts in descending order with
  \<^verbatim>\<open>sort_values(ascending=False)\<close>, which the source calls once more on the result.
  The sort is pandas' default (\<^verbatim>\<open>kind="quicksort"\<close>); what it does with equal counts
  is not fixed by the program, so \<open>sort_values\<close> is a parameter \<open>srt\<close> of the model,
  and \<open>sorts_desc\<close> says what every admissible sort guarantees: the same entries, in
  descending order of count.
\<close>

type_synonym series = "(string \<times> nat) list"

fun tally_add :: "string \<Rightarrow> series \<Rightarrow> series" where
  "tally_add k [] = [(k, 1)]"
| "tally_add k ((k', n) # t) =
     (if k = k' then (k', Suc n) # t else (k', n) # tally_add k t)"

definition tally_step :: "series \<Rightarrow> string option \<Rightarrow> series" where
  "tally_step t cell = (case cell of None \<Rightarrow> t | Some k \<Rightarrow> tally_add k t)"

definition tally :: "string option list \<Rightarrow> series" where
  "tally cells = foldl tally_step [] cells"

definition sorts_desc :: "(series \<Rightarrow> series) \<Rightarrow> bool" where
  "sorts_desc srt \<longleftrightarrow>
     (\<forall>s. mset (srt s) = mset s \<and> sorted_wrt (\<lambda>a b. snd b \<le> snd a) (srt s))"

definition value_counts :: "(series \<Rightarrow> series) \<Rightarrow> string option list \<Rightarrow> series" where
  "value_counts srt cells = srt (tally cells)"

text \<open>
  One admissible sort: the stable one, which reverses, sorts in ascending order of count
  and reverses again, so that equal counts keep the order of first occurrence.
\<close>

definition sort_values_stable :: "series \<Rightarrow> series" where
  "sort_values_stable s = rev (sort_key snd (rev s))"

text \<open>
  \<^verbatim>\<open>parts.loc[label] = v\<close>: an entry with that label is overwritten in place, and only a
  new label is appended.
\<close>

definition set_loc :: "series \<Rightarrow> string \<Rightarrow> nat \<Rightarrow> series" where
  "set_loc s label v =
     (if label \<in> fst ` set s then map (\<lambda>(k, n). if k = label then (k, v) else (k, n)) s
      else s @ [(label, v)])"

definition pie_parts :: "series \<Rightarrow> series" where
  "pie_parts cont =
     (if length cont > 8
      then (let outros = sum_list (map snd (drop 8 cont)) in set_loc (take 8 cont) ''Outros'' outros)
      else cont)"

definition build_bars_pie :: "(series \<Rightarrow> series) \<Rightarrow> ctx \<Rightarrow> string option \<Rightarrow> error + figure" where
  "build_bars_pie srt c selected_leader =
     bind_err
       (if valid_selection (leaders c) selected_leader
        then bind_err (select_leader (df_eqp c) (the_default [] selected_leader)) (\<lambda>dfc.
               Inr (dfc, ''Cluster '' @ the_default [] selected_leader @ '': Top 5 Modelos e Mix''))
        else Inr (df_eqp c, ''Brasil inteiro: Top 5 Modelos e Mix''))
       (\<lambda>(dfc, title).
     bind_err (getcol dfc ''Modelo'' Modelo) (\<lambda>modelo.
     let cont = srt (value_counts srt modelo);
         top5 = take 5 cont;
         parts = pie_parts cont
     in Inr \<lparr>fig_data = [Bar (map fst top5) (map snd top5) ''Top 5 Modelos'',
                          Pie (map fst parts) (map snd parts) ''Mix de Modelos''],
             fig_title = Some title, lataxis_range = None, lonaxis_range = None\<rparr>))"

subsection \<open>The callback\<close>

text \<open>
  \<^verbatim>\<open>update_dashboard\<close> turns a falsy dropdown value into \<^verbatim>\<open>None\<close> and builds the map
  first, then the distribution.
\<close>

definition update_dashboard ::
    "(series \<Rightarrow> series) \<Rightarrow> ctx \<Rightarrow> string option \<Rightarrow> error + figure \<times> figure" where
  "update_dashboard srt c selected_leader =
     (let leader = (case selected_leader of None \<Rightarrow> None
                    | Some s \<Rightarrow> if s \<noteq> [] then Some s else None)
      in bind_err (build_map c leader) (\<lambda>m.
         bind_err (build_bars_pie srt c leader) (\<lambda>d. Inr (m, d))))"

subsection \<open>Centroids in float64\<close>

text \<open>
  The centroid computation once more, as pandas runs it on float64 columns. \<open>f64\<close>
  rounds a real number to the nearest float64, ties to even: zero is itself,
  \<open>exponent\<close> finds the binade of any other number (not below the smallest normal
  exponent, so subnormal numbers keep their fixed spacing), and the number is rounded to
  a multiple of the spacing of that binade; overflow to infinity and the sign of zero
  are not modelled. The grouped mean keeps, for every
  group and column, a running sum with a compensation term: each cell adds
  \<^verbatim>\<open>y = val - compensation\<close>, \<^verbatim>\<open>t = sumx + y\<close>,
  \<^verbatim>\<open>compensation = t - sumx - y\<close>, \<^verbatim>\<open>sumx = t\<close>, and the mean is
  \<^verbatim>\<open>sumx / count\<close>. Every operation rounds its result.
\<close>

function expo_down :: "real \<Rightarrow> int \<Rightarrow> int" where
  "expo_down x e = (if 2 powi e \<le> x \<or> e \<le> - 1022 then e else expo_down x (e - 1))"
  by pat_completeness auto
termination
  by (relation "measure (\<lambda>(x, e). nat (e + 1022))") auto

function expo_up :: "real \<Rightarrow> int \<Rightarrow> int" where
  "expo_up x e = (if x < 2 powi (e + 1) \<or> 1023 \<le> e then e else expo_up x (e + 1))"
  by pat_completeness auto
termination
  by (relation "measure (\<lambda>(x, e). nat (1023 - e))") auto

definition exponent :: "real \<Rightarrow> int" where
  "exponent x = (if 1 \<le> \<bar>x\<bar> then expo_up \<bar>x\<bar> 0 else expo_down \<bar>x\<bar> (- 1))"

definition round_half_even :: "real \<Rightarrow> int" where
  "round_half_even x =
     (let f = \<lfloor>x\<rfloor>; d = x - of_int f
      in if d < 1 / 2 then f else if 1 / 2 < d then f + 1 else if even f then f else f + 1)"

definition f64 :: "real \<Rightarrow> real" where
  "f64 x =
     (if x = 0 then 0
      else (let u = 2 powi (exponent x - 52) in of_int (round_half_even (x / u)) * u))"

text \<open>\<open>(sumx, compensation, nobs)\<close> of one group and column.\<close>

type_synonym kahan = "real \<times> real \<times> nat"

fun add_val_f64 :: "real option \<Rightarrow> kahan \<Rightarrow> kahan" where
  "add_val_f64 None a = a"
| "add_val_f64 (Some val) (sumx, compensation, nobs) =
     (let y = f64 (val - compensation);
          t = f64 (sumx + y)
      in (t, f64 (f64 (t - sumx) - y), Suc nobs))"

definition mean_of_f64 :: "kahan \<Rightarrow> real option" where
  "mean_of_f64 a =
     (case a of (sumx, compensation, nobs) \<Rightarrow>
        if nobs = 0 then None else Some (f64 (sumx / real nobs)))"

fun group_add_f64 :: "string \<Rightarrow> real option \<Rightarrow> real option \<Rightarrow> (string \<times> kahan \<times> kahan) list
    \<Rightarrow> (string \<times> kahan \<times> kahan) list" where
  "group_add_f64 k la lo [] = [(k, add_val_f64 la (0, 0, 0), add_val_f64 lo (0, 0, 0))]"
| "group_add_f64 k la lo ((k', a, b) # gs) =
     (if k = k' then (k', add_val_f64 la a, add_val_f64 lo b) # gs
      else (k', a, b) # group_add_f64 k la lo gs)"

definition group_step_f64 ::
    "(string \<times> kahan \<times> kahan) list \<Rightarrow> row \<Rightarrow> (string \<times> kahan \<times> kahan) list" where
  "group_step_f64 gs r =
     (case ATA_Lider r of None \<Rightarrow> gs
      | Some k \<Rightarrow> group_add_f64 k (Latitude r) (Longitude r) gs)"

definition groupby_mean_f64 :: "frame \<Rightarrow> error + centroid list" where
  "groupby_mean_f64 df =
     (if ''ATA_Lider'' \<notin> set (columns df) then Inl (KeyError ''ATA_Lider'')
      else if ''Latitude'' \<notin> set (columns df) then Inl (KeyError ''Latitude'')
      else if ''Longitude'' \<notin> set (columns df) then Inl (KeyError ''Longitude'')
      else Inr (map (\<lambda>(k, a, b). (k, mean_of_f64 a, mean_of_f64 b))
                  (sort_key fst (foldl group_step_f64 [] (rows df)))))"

subsection \<open>Notions used to state the properties\<close>

text \<open>The loaded equipment rows assigned to a leader.\<close>

definition leader_rows :: "ctx \<Rightarrow> string \<Rightarrow> row list" where
  "leader_rows c l = filter (\<lambda>r. ATA_Lider r = Some l) (rows (df_eqp c))"

text \<open>The arithmetic mean, as the specification words the centroid.\<close>

definition arith_mean :: "real list \<Rightarrow> real" where
  "arith_mean xs = sum_list xs / real (length xs)"

text \<open>
  The columns that the figure builders read and start-up has not already required: the
  coordinates of the reference sheet and \<open>Serial\<close> and \<open>Modelo\<close> of the equipment
  sheet. Section 6 of the specification lists them as part of the input file; without
  them the builders raise \<open>KeyError\<close>.
\<close>

definition sheets_complete :: "ctx \<Rightarrow> bool" where
  "sheets_complete c \<longleftrightarrow>
     ''Latitude'' \<in> set (columns (df_atas c)) \<and> ''Longitude'' \<in> set (columns (df_atas c)) \<and>
     ''Serial'' \<in> set (columns (df_eqp c)) \<and> ''Modelo'' \<in> set (columns (df_eqp c))"

text \<open>
  The rows a selection stands for: the leader's rows if the selection is a known leader,
  every loaded row otherwise. Then the model names that occur in some rows, and how often
  one of them occurs.
\<close>

definition selected_rows :: "ctx \<Rightarrow> string option \<Rightarrow> row list" where
  "selected_rows c sel =
     (if valid_selection (leaders c) sel then leader_rows c (the_default [] sel)
      else rows (df_eqp c))"

definition model_names :: "row list \<Rightarrow> string set" where
  "model_names rs = set (List.map_filter Modelo rs)"

definition occurrences :: "row list \<Rightarrow> string \<Rightarrow> nat" where
  "occurrences rs m = length (filter (\<lambda>r. Modelo r = Some m) rs)"

text \<open>The ranked counts \<^verbatim>\<open>cont\<close> of \<^verbatim>\<open>build_bars_pie\<close>, as a function of the rows.\<close>

definition ranking :: "(series \<Rightarrow> series) \<Rightarrow> row list \<Rightarrow> series" where
  "ranking srt rs = srt (value_counts srt (map Modelo rs))"

text \<open>
  The series of the distribution figure: its first trace is the bar chart, its second
  the pie.
\<close>

fun trace_labels :: "trace \<Rightarrow> string list" where
  "trace_labels (Bar x y name) = x"
| "trace_labels (Pie labels vals name) = labels"
| "trace_labels _ = []"

fun trace_values :: "trace \<Rightarrow> nat list" where
  "trace_values (Bar x y name) = y"
| "trace_values (Pie labels vals name) = vals"
| "trace_values _ = []"

definition bar_labels :: "figure \<Rightarrow> string list" where
  "bar_labels fig = trace_labels (fig_data fig ! 0)"

definition bar_values :: "figure \<Rightarrow> nat list" where
  "bar_values fig = trace_values (fig_data fig ! 0)"

definition pie_labels :: "figure \<Rightarrow> string list" where
  "pie_labels fig = trace_labels (fig_data fig ! 1)"

definition pie_values :: "figure \<Rightarrow> nat list" where
  "pie_values fig = trace_values (fig_data fig ! 1)"

text \<open>Running sums of a column, and the sums a group starts from (for the proofs).\<close>

definition fold_stat :: "real option list \<Rightarrow> stat \<Rightarrow> stat" where
  "fold_stat cells a = foldl (\<lambda>a v. add_val v a) a cells"

definition start_stats :: "(string \<times> stat \<times> stat) list \<Rightarrow> string \<Rightarrow> stat \<times> stat" where
  "start_stats gs l = (case map_of gs l of None \<Rightarrow> ((0, 0), (0, 0)) | Some ab \<Rightarrow> ab)"

subsection \<open>Example data\<close>

text \<open>
  A small workbook: leaders \<open>A\<close> and \<open>B\<close> with two and one equipment points, a leader
  \<open>C\<close> of the summary without any equipment, and one reference point.
\<close>

definition summary_row :: "string \<Rightarrow> row" where
  "summary_row leader =
     \<lparr>Serial = None, Modelo = None, ATA_Lider = Some leader, Latitude = None, Longitude = None\<rparr>"

definition reference_point :: "real \<Rightarrow> real \<Rightarrow> row" where
  "reference_point la lo =
     \<lparr>Serial = None, Modelo = None, ATA_Lider = None, Latitude = Some la, Longitude = Some lo\<rparr>"

definition point :: "string \<Rightarrow> string \<Rightarrow> string \<Rightarrow> real \<Rightarrow> real \<Rightarrow> row" where
  "point serial model leader la lo =
     \<lparr>Serial = Some serial, Modelo = Some model, ATA_Lider = Some leader,
      Latitude = Some la, Longitude = Some lo\<rparr>"

definition example_resumo :: frame where
  "example_resumo =
     \<lparr>columns = [''ATA_Lider''], rows = [summary_row ''B'', summary_row ''A'', summary_row ''C'']\<rparr>"

definition example_atas :: frame where
  "example_atas =
     \<lparr>columns = [''ATA'', ''Latitude'', ''Longitude''], rows = [reference_point (- 15) (- 47)]\<rparr>"

definition example_eqp :: frame where
  "example_eqp =
     \<lparr>columns = [''Serial'', ''Modelo'', ''ATA_Lider'', ''Latitude'', ''Longitude''],
      rows = [point ''s1'' ''M1'' ''A'' (- 10) (- 50), point ''s2'' ''M2'' ''A'' (- 12) (- 52),
              point ''s3'' ''M1'' ''B'' (- 20) (- 60)]\<rparr>"

definition example_workbook :: workbook where
  "example_workbook =
     [(RESUMO_SHEET, example_resumo), (ATAS_COORD_SHEET, example_atas),
      (EQUIP_SHEET, example_eqp)]"

text \<open>What start-up makes of it.\<close>

definition example_ctx :: ctx where
  "example_ctx =
     \<lparr>df_resumo = example_resumo, df_atas = example_atas, df_eqp = example_eqp,
      leaders = [''A'', ''B'', ''C''],
      df_centroids = [(''A'', Some (- 11), Some (- 51)), (''B'', Some (- 20), Some (- 60))]\<rparr>"

text \<open>The same workbook with a reference sheet that has no \<open>Latitude\<close> column.\<close>

definition atas_without_latitude :: frame where
  "atas_without_latitude = \<lparr>columns = [''ATA'', ''Longitude''], rows = [reference_point 0 (- 47)]\<rparr>"

definition workbook_atas_without_latitude :: workbook where
  "workbook_atas_without_latitude =
     [(RESUMO_SHEET, example_resumo), (ATAS_COORD_SHEET, atas_without_latitude),
      (EQUIP_SHEET, example_eqp)]"

text \<open>The same workbook with an equipment sheet that has no \<open>Latitude\<close> column.\<close>

definition workbook_eqp_without_latitude :: workbook where
  "workbook_eqp_without_latitude =
     [(RESUMO_SHEET, example_resumo), (ATAS_COORD_SHEET, example_atas),
      (EQUIP_SHEET, example_eqp\<lparr>columns := [''Serial'', ''Modelo'', ''ATA_Lider'', ''Longitude'']\<rparr>)]"

text \<open>
  An equipment sheet with nine model names, one of them \<open>Outros\<close>, which is the most
  frequent.
\<close>

definition outros_eqp :: frame where
  "outros_eqp =
     \<lparr>columns = [''Serial'', ''Modelo'', ''ATA_Lider'', ''Latitude'', ''Longitude''],
      rows = [point ''s1'' ''Outros'' ''A'' (- 10) (- 50), point ''s2'' ''Outros'' ''A'' (- 10) (- 50),
              point ''s3'' ''M1'' ''A'' (- 10) (- 50), point ''s4'' ''M2'' ''A'' (- 10) (- 50),
              point ''s5'' ''M3'' ''A'' (- 10) (- 50), point ''s6'' ''M4'' ''A'' (- 10) (- 50),
              point ''s7'' ''M5'' ''A'' (- 10) (- 50), point ''s8'' ''M6'' ''A'' (- 10) (- 50),
              point ''s9'' ''M7'' ''A'' (- 10) (- 50), point ''s10'' ''M8'' ''A'' (- 10) (- 50)]\<rparr>"

definition workbook_outros :: workbook where
  "workbook_outros =
     [(RESUMO_SHEET, example_resumo), (ATAS_COORD_SHEET, example_atas), (EQUIP_SHEET, outros_eqp)]"

definition outros_ctx :: ctx where
  "outros_ctx =
     \<lparr>df_resumo = example_resumo, df_atas = example_atas, df_eqp = outros_eqp,
      leaders = [''A'', ''B'', ''C''], df_centroids = [(''A'', Some (- 10), Some (- 50))]\<rparr>"

definition outros_figure :: figure where
  "outros_figure =
     \<lparr>fig_data =
        [Bar [''Outros'', ''M1'', ''M2'', ''M3'', ''M4''] [2, 1, 1, 1, 1] ''Top 5 Modelos'',
         Pie [''Outros'', ''M1'', ''M2'', ''M3'', ''M4'', ''M5'', ''M6'', ''M7'']
             [1, 1, 1, 1, 1, 1, 1, 1] ''Mix de Modelos''],
      fig_title = Some ''Brasil inteiro: Top 5 Modelos e Mix'',
      lataxis_range = None, lonaxis_range = None\<rparr>"

text \<open>
  An equipment sheet with nine model names, none of them \<open>Outros\<close>: \<open>M1\<close> on two
  rows, \<open>M2\<close> to \<open>M9\<close> on one row each.
\<close>

definition nine_models_eqp :: frame where
  "nine_models_eqp =
     \<lparr>columns = [''Serial'', ''Modelo'', ''ATA_Lider'', ''Latitude'', ''Longitude''],
      rows = [point ''s1'' ''M1'' ''A'' (- 10) (- 50), point ''s2'' ''M1'' ''A'' (- 10) (- 50),
              point ''s3'' ''M2'' ''A'' (- 10) (- 50), point ''s4'' ''M3'' ''A'' (- 10) (- 50),
              point ''s5'' ''M4'' ''A'' (- 10) (- 50), point ''s6'' ''M5'' ''A'' (- 10) (- 50),
              point ''s7'' ''M6'' ''A'' (- 10) (- 50), point ''s8'' ''M7'' ''A'' (- 10) (- 50),
              point ''s9'' ''M8'' ''A'' (- 10) (- 50), point ''s10'' ''M9'' ''A'' (- 10) (- 50)]\<rparr>"

definition workbook_nine_models :: workbook where
  "workbook_nine_models =
     [(RESUMO_SHEET, example_resumo), (ATAS_COORD_SHEET, example_atas),
      (EQUIP_SHEET, nine_models_eqp)]"

definition nine_models_ctx :: ctx where
  "nine_models_ctx =
     \<lparr>df_resumo = example_resumo, df_atas = example_atas, df_eqp = nine_models_eqp,
      leaders = [''A'', ''B'', ''C''], df_centroids = [(''A'', Some (- 10), Some (- 50))]\<rparr>"

definition nine_models_figure :: figure where
  "nine_models_figure =
     \<lparr>fig_data =
        [Bar [''M1'', ''M2'', ''M3'', ''M4'', ''M5''] [2, 1, 1, 1, 1] ''Top 5 Modelos'',
         Pie [''M1'', ''M2'', ''M3'', ''M4'', ''M5'', ''M6'', ''M7'', ''M8'', ''Outros'']
             [2, 1, 1, 1, 1, 1, 1, 1, 1] ''Mix de Modelos''],
      fig_title = Some ''Brasil inteiro: Top 5 Modelos e Mix'',
      lataxis_range = None, lonaxis_range = None\<rparr>"

text \<open>An equipment sheet with a row whose model cell is blank.\<close>

definition blank_model_eqp :: frame where
  "blank_model_eqp =
     \<lparr>columns = [''Serial'', ''Modelo'', ''ATA_Lider'', ''Latitude'', ''Longitude''],
      rows = [point ''s1'' ''M1'' ''A'' (- 10) (- 50), point ''s2'' ''M2'' ''A'' (- 12) (- 52),
              point ''s3'' ''M1'' ''B'' (- 20) (- 60),
              \<lparr>Serial = Some ''s4'', Modelo = None, ATA_Lider = Some ''B'',
               Latitude = Some (- 22), Longitude = Some (- 62)\<rparr>]\<rparr>"

definition workbook_blank_model :: workbook where
  "workbook_blank_model =
     [(RESUMO_SHEET, example_resumo), (ATAS_COORD_SHEET, example_atas),
      (EQUIP_SHEET, blank_model_eqp)]"

definition blank_model_ctx :: ctx where
  "blank_model_ctx =
     \<lparr>df_resumo = example_resumo, df_atas = example_atas, df_eqp = blank_model_eqp,
      leaders = [''A'', ''B'', ''C''],
      df_centroids = [(''A'', Some (- 11), Some (- 51)), (''B'', Some (- 21), Some (- 61))]\<rparr>"

definition blank_model_figure :: figure where
  "blank_model_figure =
     \<lparr>fig_data = [Bar [''M1'', ''M2''] [2, 1] ''Top 5 Modelos'',
                  Pie [''M1'', ''M2''] [2, 1] ''Mix de Modelos''],
      fig_title = Some ''Brasil inteiro: Top 5 Modelos e Mix'',
      lataxis_range = None, lonaxis_range = None\<rparr>"

text \<open>
  Three equipment points of leader \<open>A\<close> at latitude 0.1, that is, at the float64
  nearest to one tenth, and longitude -50.
\<close>

definition tenth :: real where
  "tenth = 3602879701896397 / 36028797018963968"

definition tenth_eqp :: frame where
  "tenth_eqp =
     \<lparr>columns = [''Serial'', ''Modelo'', ''ATA_Lider'', ''Latitude'', ''Longitude''],
      rows = [point ''s1'' ''M1'' ''A'' tenth (- 50), point ''s2'' ''M1'' ''A'' tenth (- 50),
              point ''s3'' ''M1'' ''A'' tenth (- 50)]\<rparr>"

definition workbook_tenth :: workbook where
  "workbook_tenth =
     [(RESUMO_SHEET, example_resumo), (ATAS_COORD_SHEET, example_atas), (EQUIP_SHEET, tenth_eqp)]"

definition tenth_ctx :: ctx where
  "tenth_ctx =
     \<lparr>df_resumo = example_resumo, df_atas = example_atas, df_eqp = tenth_eqp,
      leaders = [''A'', ''B'', ''C''], df_centroids = [(''A'', Some tenth, Some (- 50))]\<rparr>"

section \<open>Verification\<close>

subsection \<open>Unfolding for evaluation\<close>

lemmas sheet_names = RESUMO_SHEET_def ATAS_COORD_SHEET_def EQUIP_SHEET_def

lemmas load_defs = startup_def read_excel_def sheet_names parse_row_def parse_text_def
  na_values_def normalise_def dropna_def leaders_of_def getcol_def groupby_mean_def
  group_step_def mean_of_def

lemmas render_defs = build_bars_pie_def valid_selection_def select_leader_def getcol_def
  value_counts_def tally_def tally_step_def sort_values_stable_def pie_parts_def set_loc_def

lemmas example_defs = example_workbook_def example_resumo_def example_atas_def
  example_eqp_def point_def summary_row_def reference_point_def

subsection \<open>Properties of start-up\<close>

lemma isl_bind_err: "isl (bind_err m f) \<longleftrightarrow> isl m \<or> (\<exists>v. m = Inr v \<and> isl (f v))"
  by (cases m) auto

lemma columns_normalise [simp]: "columns (normalise df) = columns df"
  by (simp add: normalise_def dropna_def Let_def)

lemma leaders_of_eq:
  "leaders_of df =
     (if ''ATA_Lider'' \<in> set (columns df)
      then Inr (sort (remdups (List.map_filter id (map ATA_Lider (rows df)))))
      else Inl (KeyError ''ATA_Lider''))"
  by (simp add: leaders_of_def getcol_def)

lemma isl_groupby_mean:
  "isl (groupby_mean df) \<longleftrightarrow>
     ''ATA_Lider'' \<notin> set (columns df) \<or> ''Latitude'' \<notin> set (columns df)
     \<or> ''Longitude'' \<notin> set (columns df)"
  by (simp add: groupby_mean_def)

text \<open>
  Claim C5, as the code has it. Start-up ends with an exception, and so without any
  context for the dashboard, whenever the file is missing, one of the three sheets is
  absent, the summary or the equipment sheet has no \<open>ATA_Lider\<close> column, or the
  equipment sheet has no \<open>Latitude\<close> or no \<open>Longitude\<close> column. The columns of the
  reference sheet are not among the conditions: the normalisation loop asks
  \<^verbatim>\<open>if c in df_atas.columns\<close> before it touches them, and nothing else reads them at
  start-up.
\<close>

theorem startup_fails_when:
  assumes "case file of
        None \<Rightarrow> True
      | Some wb \<Rightarrow>
          (case (map_of wb RESUMO_SHEET, map_of wb ATAS_COORD_SHEET, map_of wb EQUIP_SHEET) of
             (Some resumo, Some atas, Some eqp) \<Rightarrow>
                ''ATA_Lider'' \<notin> set (columns resumo) \<or> ''ATA_Lider'' \<notin> set (columns eqp)
                \<or> ''Latitude'' \<notin> set (columns eqp) \<or> ''Longitude'' \<notin> set (columns eqp)
           | _ \<Rightarrow> True)"
  shows "isl (startup file)"
proof (cases "file")
  case None
  then show ?thesis by (simp add: startup_def read_excel_def)
next
  case (Some wb)
  show ?thesis
  proof (cases "map_of wb RESUMO_SHEET")
    case None
    with Some show ?thesis by (simp add: startup_def read_excel_def)
  next
    case r: (Some resumo)
    show ?thesis
    proof (cases "map_of wb ATAS_COORD_SHEET")
      case None
      with Some r show ?thesis by (simp add: startup_def read_excel_def)
    next
      case a: (Some atas)
      show ?thesis
      proof (cases "map_of wb EQUIP_SHEET")
        case None
        with Some r a show ?thesis by (simp add: startup_def read_excel_def)
      next
        case e: (Some eqp)
        with Some r a assms show ?thesis
          by (simp add: startup_def read_excel_def Let_def leaders_of_eq isl_bind_err
              isl_groupby_mean)
      qed
    qed
  qed
qed

text \<open>
  The theorem at a workbook whose equipment sheet lacks \<open>Latitude\<close>: start-up fails.
\<close>

theorem startup_fails_when_witness:
  "isl (startup (Some workbook_eqp_without_latitude))"
proof -
  have "''Latitude'' \<notin> set (columns (example_eqp\<lparr>columns :=
          [''Serial'', ''Modelo'', ''ATA_Lider'', ''Longitude'']\<rparr>))"
    by simp
  then show ?thesis
    using startup_fails_when [of "Some workbook_eqp_without_latitude"]
    by (simp add: workbook_eqp_without_latitude_def sheet_names)
qed

text \<open>
  Claim C5 as the specification words it does not hold: a reference sheet without its
  \<open>Latitude\<close> column does not stop start-up.
\<close>

theorem startup_atas_column_counterexample:
  "map_of workbook_atas_without_latitude ATAS_COORD_SHEET = Some atas_without_latitude
   \<and> ''Latitude'' \<notin> set (columns atas_without_latitude)
   \<and> \<not> isl (startup (Some workbook_atas_without_latitude))"
  by (simp add: load_defs workbook_atas_without_latitude_def atas_without_latitude_def
      example_defs)

lemma bind_err_Inr_iff: "bind_err m f = Inr y \<longleftrightarrow> (\<exists>v. m = Inr v \<and> f v = Inr y)"
  by (cases m) auto

lemma read_excel_Inr_iff:
  "read_excel file sh = Inr df \<longleftrightarrow>
     (\<exists>wb raw. file = Some wb \<and> map_of wb sh = Some raw \<and> df = raw\<lparr>rows := map parse_row (rows raw)\<rparr>)"
  by (auto simp: read_excel_def split: option.splits)

lemma startup_Inr:
  assumes "startup file = Inr c"
  obtains resumo atas eqp where
    "read_excel file RESUMO_SHEET = Inr resumo"
    "read_excel file ATAS_COORD_SHEET = Inr atas"
    "read_excel file EQUIP_SHEET = Inr eqp"
    "df_resumo c = resumo" "df_atas c = normalise atas" "df_eqp c = normalise eqp"
    "leaders_of resumo = Inr (leaders c)"
    "groupby_mean (normalise eqp) = Inr (df_centroids c)"
  using assms unfolding startup_def Let_def bind_err_Inr_iff by auto

lemma groupby_mean_Inr:
  "groupby_mean df = Inr cs \<longleftrightarrow>
     ''ATA_Lider'' \<in> set (columns df) \<and> ''Latitude'' \<in> set (columns df) \<and> ''Longitude'' \<in> set (columns df)
     \<and> cs = map (\<lambda>(k, a, b). (k, mean_of a, mean_of b)) (sort_key fst (foldl group_step [] (rows df)))"
  by (auto simp: groupby_mean_def)

lemma startup_eqp_columns:
  assumes "startup file = Inr c"
  shows "''ATA_Lider'' \<in> set (columns (df_eqp c))" "''Latitude'' \<in> set (columns (df_eqp c))"
    "''Longitude'' \<in> set (columns (df_eqp c))"
  using assms by (auto elim!: startup_Inr simp: groupby_mean_Inr)

lemma startup_centroids:
  assumes "startup file = Inr c"
  shows "df_centroids c = map (\<lambda>(k, a, b). (k, mean_of a, mean_of b))
           (sort_key fst (foldl group_step [] (rows (df_eqp c))))"
  using assms by (auto elim!: startup_Inr simp: groupby_mean_Inr)

lemma rows_normalise:
  "''Latitude'' \<in> set (columns df) \<Longrightarrow> ''Longitude'' \<in> set (columns df) \<Longrightarrow>
   rows (normalise df) = filter (\<lambda>r. Latitude r \<noteq> None \<and> Longitude r \<noteq> None) (rows df)"
  by (auto simp: normalise_def dropna_def Let_def intro: filter_cong)

lemma startup_eqp_coords:
  assumes "startup file = Inr c" "r \<in> set (rows (df_eqp c))"
  shows "Latitude r \<noteq> None" "Longitude r \<noteq> None"
  using assms by (auto elim!: startup_Inr simp: groupby_mean_Inr rows_normalise)

lemma set_map_filter_id: "set (List.map_filter id xs) = {y. Some y \<in> set xs}"
  by (induction xs) (auto simp: List.map_filter_simps split: option.splits)

lemma parse_text_nonempty: "parse_text x \<noteq> Some []"
  by (simp add: parse_text_def na_values_def split: option.splits)

lemma leaders_of_Inr:
  assumes "leaders_of df = Inr ls"
  shows "set ls = {l. Some l \<in> ATA_Lider ` set (rows df)}"
proof -
  from assms have "ls = sort (remdups (List.map_filter id (map ATA_Lider (rows df))))"
    by (auto simp: leaders_of_def getcol_def bind_err_Inr_iff split: if_splits)
  then show ?thesis by (simp add: set_map_filter_id)
qed

lemma startup_leaders_nonempty:
  assumes "startup file = Inr c"
  shows "[] \<notin> set (leaders c)"
proof -
  from assms obtain resumo where r: "read_excel file RESUMO_SHEET = Inr resumo"
    and l: "leaders_of resumo = Inr (leaders c)"
    by (auto elim!: startup_Inr)
  from r have "\<forall>x \<in> set (rows resumo). ATA_Lider x \<noteq> Some []"
    by (auto simp: read_excel_Inr_iff parse_row_def parse_text_nonempty)
  with leaders_of_Inr [OF l] show ?thesis by auto
qed


subsection \<open>Properties of the centroids\<close>

lemma fold_stat_simps [simp]:
  "fold_stat [] a = a" "fold_stat (v # vs) a = fold_stat vs (add_val v a)"
  by (simp_all add: fold_stat_def)

lemma fold_stat_eq:
  "fold_stat cells (s, n) =
     (s + sum_list (List.map_filter id cells), n + length (List.map_filter id cells))"
  by (induction cells arbitrary: s n) (auto split: option.splits)

lemma keys_group_add: "set (map fst (group_add k la lo gs)) = insert k (set (map fst gs))"
  by (induction k la lo gs rule: group_add.induct) auto

lemma distinct_group_add:
  "distinct (map fst gs) \<Longrightarrow> distinct (map fst (group_add k la lo gs))"
proof (induction k la lo gs rule: group_add.induct)
  case (1 k la lo)
  then show ?case by simp
next
  case (2 k la lo k' a b gs)
  then show ?case using keys_group_add [of k la lo gs] by auto
qed

lemma map_of_group_add:
  "map_of (group_add k la lo gs) k' =
     (if k' = k then
        Some (case map_of gs k of None \<Rightarrow> (add_val la (0, 0), add_val lo (0, 0))
              | Some (a, b) \<Rightarrow> (add_val la a, add_val lo b))
      else map_of gs k')"
  by (induction gs) auto

lemma distinct_group_fold:
  "distinct (map fst gs) \<Longrightarrow> distinct (map fst (foldl group_step gs rs))"
  by (induction rs arbitrary: gs) (auto simp: group_step_def distinct_group_add split: option.splits)

lemma map_of_group_fold:
  "map_of (foldl group_step gs rs) l =
     (let g = filter (\<lambda>r. ATA_Lider r = Some l) rs in
      if g = [] then map_of gs l
      else Some (fold_stat (map Latitude g) (fst (start_stats gs l)),
                 fold_stat (map Longitude g) (snd (start_stats gs l))))"
proof (induction rs arbitrary: gs)
  case Nil
  then show ?case by simp
next
  case (Cons r rs)
  show ?case
  proof (cases "ATA_Lider r = Some l")
    case True
    then have m: "map_of (group_step gs r) l =
        Some (add_val (Latitude r) (fst (start_stats gs l)), add_val (Longitude r) (snd (start_stats gs l)))"
      by (auto simp: group_step_def map_of_group_add start_stats_def split: option.splits)
    then have s: "start_stats (group_step gs r) l =
        (add_val (Latitude r) (fst (start_stats gs l)), add_val (Longitude r) (snd (start_stats gs l)))"
      by (simp add: start_stats_def)
    show ?thesis using True by (simp add: Cons.IH [of "group_step gs r"] m s Let_def)
  next
    case False
    then have m: "map_of (group_step gs r) l = map_of gs l"
      by (auto simp: group_step_def map_of_group_add split: option.splits)
    then have s: "start_stats (group_step gs r) l = start_stats gs l"
      by (simp add: start_stats_def)
    show ?thesis using False by (simp add: Cons.IH [of "group_step gs r"] m s Let_def)
  qed
qed

lemma map_of_sort_key_fst:
  assumes "distinct (map fst xs)"
  shows "map_of (sort_key fst xs) = map_of xs"
proof -
  have "mset (map fst (sort_key fst xs)) = mset (map fst xs)" by simp
  then have "distinct (map fst (sort_key fst xs))"
    using assms by (metis mset_eq_imp_distinct_iff)
  then show ?thesis using assms by (simp add: map_of_inject_set)
qed

lemma map_of_centroids:
  "map_of (map (\<lambda>(k, a, b). (k, mean_of a, mean_of b)) gs) l =
     map_option (\<lambda>(a, b). (mean_of a, mean_of b)) (map_of gs l)"
  by (induction gs) auto

lemma fst_centroids: "map (fst \<circ> (\<lambda>(k, a, b). (k, mean_of a, mean_of b))) gs = map fst gs"
  by (induction gs) auto

lemma length_map_filter_all:
  "\<forall>r \<in> set g. f r \<noteq> None \<Longrightarrow> length (List.map_filter f g) = length g"
  by (induction g) (auto split: option.splits)

lemma map_filter_id_map: "List.map_filter id (map f xs) = List.map_filter f xs"
  by (induction xs) (auto split: option.splits)


lemma distinct_df_centroids:
  assumes "startup file = Inr c"
  shows "distinct (map fst (df_centroids c))"
proof -
  let ?gs = "foldl group_step [] (rows (df_eqp c))"
  have d: "distinct (map fst ?gs)" by (rule distinct_group_fold) simp
  have "mset (map fst (sort_key fst ?gs)) = mset (map fst ?gs)" by simp
  then have "distinct (map fst (sort_key fst ?gs))"
    using d by (metis mset_eq_imp_distinct_iff)
  then show ?thesis by (simp add: startup_centroids [OF assms] fst_centroids)
qed

lemma leader_rows_coords:
  assumes "startup file = Inr c"
  shows "length (List.map_filter Latitude (leader_rows c l)) = length (leader_rows c l)"
    and "length (List.map_filter Longitude (leader_rows c l)) = length (leader_rows c l)"
  using startup_eqp_coords [OF assms]
  by (auto simp: leader_rows_def intro!: length_map_filter_all)

lemma map_of_df_centroids:
  assumes "startup file = Inr c"
  shows "map_of (df_centroids c) l =
     (if leader_rows c l = [] then None
      else Some (Some (arith_mean (List.map_filter Latitude (leader_rows c l))),
                 Some (arith_mean (List.map_filter Longitude (leader_rows c l)))))"
proof -
  let ?gs = "foldl group_step [] (rows (df_eqp c))"
  let ?g = "leader_rows c l"
  have d: "distinct (map fst ?gs)" by (rule distinct_group_fold) simp
  have "map_of (df_centroids c) l = map_option (\<lambda>(a, b). (mean_of a, mean_of b)) (map_of ?gs l)"
    by (simp add: startup_centroids [OF assms] map_of_centroids map_of_sort_key_fst [OF d])
  also have "\<dots> = (if ?g = [] then None
       else Some (Some (arith_mean (List.map_filter Latitude ?g)),
                  Some (arith_mean (List.map_filter Longitude ?g))))"
    using leader_rows_coords [OF assms, of l]
    by (auto simp: map_of_group_fold leader_rows_def [symmetric] start_stats_def fold_stat_eq
        map_filter_id_map mean_of_def arith_mean_def Let_def)
  finally show ?thesis .
qed

text \<open>
  Claim C3. After start-up the centroid table has at most one row per leader; a leader
  with at least one loaded equipment row has the row made of the arithmetic means of
  that leader's latitudes and longitudes (every one of its rows contributes, since rows
  without a coordinate were dropped), and a leader with no equipment row has no entry.
\<close>

theorem centroids_are_leader_means:
  assumes "startup file = Inr c"
  shows "distinct (map fst (df_centroids c)) \<and>
     (let g = leader_rows c l;
          lats = List.map_filter Latitude g;
          lons = List.map_filter Longitude g
      in length lats = length g \<and> length lons = length g \<and>
         map_of (df_centroids c) l =
           (if g = [] then None else Some (Some (arith_mean lats), Some (arith_mean lons))))"
  using distinct_df_centroids [OF assms] leader_rows_coords [OF assms, of l]
    map_of_df_centroids [OF assms, of l]
  by (simp add: Let_def)

lemma startup_example: "startup (Some example_workbook) = Inr example_ctx"
  by (simp add: load_defs example_defs example_ctx_def)

text \<open>The theorem at the example: leader \<open>A\<close> has the centroid \<open>(-11, -51)\<close>.\<close>

theorem centroids_are_leader_means_witness:
  "startup (Some example_workbook) = Inr example_ctx
   \<and> map_of (df_centroids example_ctx) ''A'' = Some (Some (- 11), Some (- 51))
   \<and> map_of (df_centroids example_ctx) ''C'' = None"
  using centroids_are_leader_means [OF startup_example, of "''A''"]
    centroids_are_leader_means [OF startup_example, of "''C''"] startup_example
  by (simp add: leader_rows_def arith_mean_def example_ctx_def example_defs)

lemma sum_list_le_length_times:
  fixes xs :: "real list"
  assumes "\<forall>x \<in> set xs. x \<le> m"
  shows "sum_list xs \<le> real (length xs) * m"
  using assms by (induction xs) (auto simp: algebra_simps)

lemma length_times_le_sum_list:
  fixes xs :: "real list"
  assumes "\<forall>x \<in> set xs. m \<le> x"
  shows "real (length xs) * m \<le> sum_list xs"
  using assms by (induction xs) (auto simp: algebra_simps)

lemma arith_mean_bounds:
  assumes "xs \<noteq> []"
  shows "Min (set xs) \<le> arith_mean xs" "arith_mean xs \<le> Max (set xs)"
proof -
  have n: "0 < real (length xs)" using assms by simp
  have "real (length xs) * Min (set xs) \<le> sum_list xs"
    by (rule length_times_le_sum_list) simp
  then show "Min (set xs) \<le> arith_mean xs"
    using n by (simp add: arith_mean_def pos_le_divide_eq mult.commute)
  have "sum_list xs \<le> real (length xs) * Max (set xs)"
    by (rule sum_list_le_length_times) simp
  then show "arith_mean xs \<le> Max (set xs)"
    using n by (simp add: arith_mean_def pos_divide_le_eq mult.commute)
qed

text \<open>
  Claim C7, as the code has it. After start-up, for a leader with at least one equipment
  row, the centroid taken as the exact arithmetic mean of the leader's coordinates lies
  within the closed bounding box of those coordinates on both axes. This is the centroid
  of the exact embedding; the float64 value the program stores is this mean up to
  rounding.
\<close>

theorem centroid_in_bounding_box_exact:
  assumes "startup file = Inr c" "leader_rows c l \<noteq> []"
  shows "\<exists>la lo. map_of (df_centroids c) l = Some (Some la, Some lo) \<and>
     (let lats = List.map_filter Latitude (leader_rows c l);
          lons = List.map_filter Longitude (leader_rows c l)
      in la = arith_mean lats \<and> lo = arith_mean lons \<and>
         Min (set lats) \<le> la \<and> la \<le> Max (set lats) \<and>
         Min (set lons) \<le> lo \<and> lo \<le> Max (set lons))"
proof -
  let ?lats = "List.map_filter Latitude (leader_rows c l)"
  let ?lons = "List.map_filter Longitude (leader_rows c l)"
  have ne: "?lats \<noteq> []" "?lons \<noteq> []"
    using leader_rows_coords [OF assms(1), of l] assms(2) by auto
  have m: "map_of (df_centroids c) l = Some (Some (arith_mean ?lats), Some (arith_mean ?lons))"
    using map_of_df_centroids [OF assms(1), of l] assms(2) by simp
  show ?thesis
    unfolding Let_def
    using m arith_mean_bounds [OF ne(1)] arith_mean_bounds [OF ne(2)] by blast
qed

text \<open>
  The theorem at leader \<open>A\<close> of the example: latitudes \<open>-12 .. -10\<close> with centroid
  \<open>-11\<close>, longitudes \<open>-52 .. -50\<close> with centroid \<open>-51\<close>.
\<close>

theorem centroid_in_bounding_box_exact_witness:
  "startup (Some example_workbook) = Inr example_ctx \<and> leader_rows example_ctx ''A'' \<noteq> []
   \<and> map_of (df_centroids example_ctx) ''A'' = Some (Some (- 11), Some (- 51))
   \<and> Min (set (List.map_filter Latitude (leader_rows example_ctx ''A''))) \<le> - 11
   \<and> - 11 \<le> Max (set (List.map_filter Latitude (leader_rows example_ctx ''A'')))
   \<and> Min (set (List.map_filter Longitude (leader_rows example_ctx ''A''))) \<le> - 51
   \<and> - 51 \<le> Max (set (List.map_filter Longitude (leader_rows example_ctx ''A'')))"
proof -
  have h: "leader_rows example_ctx ''A'' \<noteq> []"
    by (simp add: leader_rows_def example_ctx_def example_defs)
  have m: "map_of (df_centroids example_ctx) ''A'' = Some (Some (- 11), Some (- 51))"
    by (simp add: example_ctx_def)
  from centroid_in_bounding_box_exact [OF startup_example h]
  have "Min (set (List.map_filter Latitude (leader_rows example_ctx ''A''))) \<le> - 11
     \<and> - 11 \<le> Max (set (List.map_filter Latitude (leader_rows example_ctx ''A'')))
     \<and> Min (set (List.map_filter Longitude (leader_rows example_ctx ''A''))) \<le> - 51
     \<and> - 51 \<le> Max (set (List.map_filter Longitude (leader_rows example_ctx ''A'')))"
    unfolding m Let_def by auto
  with startup_example h m show ?thesis by blast
qed

text \<open>
  The float64 run on three points at latitude 0.1 and longitude -50, step by step: the
  running sums with their compensation, then the means.
\<close>

lemmas f64_defs = f64_def exponent_def round_half_even_def Let_def

lemma kahan_tenth_1:
  "add_val_f64 (Some (3602879701896397 / 36028797018963968)) (0, 0, 0)
     = (3602879701896397 / 36028797018963968, 0, Suc 0)"
  by (simp add: f64_defs)

lemma kahan_tenth_2:
  "add_val_f64 (Some (3602879701896397 / 36028797018963968))
     (3602879701896397 / 36028797018963968, 0, Suc 0)
     = (3602879701896397 / 18014398509481984, 0, Suc (Suc 0))"
  by (simp add: f64_defs)

lemma kahan_tenth_3:
  "add_val_f64 (Some (3602879701896397 / 36028797018963968))
     (3602879701896397 / 18014398509481984, 0, Suc (Suc 0))
     = (1351079888211149 / 4503599627370496, 1 / 36028797018963968, Suc (Suc (Suc 0)))"
  by (simp add: f64_defs)

lemma kahan_fifty_1: "add_val_f64 (Some (- 50)) (0, 0, 0) = (- 50, 0, Suc 0)"
  by (simp add: f64_defs)

lemma kahan_fifty_2: "add_val_f64 (Some (- 50)) (- 50, 0, Suc 0) = (- 100, 0, Suc (Suc 0))"
  by (simp add: f64_defs)

lemma kahan_fifty_3: "add_val_f64 (Some (- 50)) (- 100, 0, Suc (Suc 0)) = (- 150, 0, Suc (Suc (Suc 0)))"
  by (simp add: f64_defs)

lemma mean_tenth:
  "mean_of_f64 (1351079888211149 / 4503599627370496, 1 / 36028797018963968, Suc (Suc (Suc 0)))
     = Some (7205759403792795 / 72057594037927936)"
  by (simp add: mean_of_f64_def f64_defs)

lemma mean_fifty: "mean_of_f64 (- 150, 0, Suc (Suc (Suc 0))) = Some (- 50)"
  by (simp add: mean_of_f64_def f64_defs)


text \<open>
  Claim C7 as stated does not hold of the float64 centroid. For three points of one
  leader at latitude 0.1 the maximum latitude is 0.1, the float64 nearest to one tenth,
  and the mean that the compensated float64 sum gives is the next float64 above it
  (0.10000000000000002): the centroid lies above the bounding box.
\<close>

theorem centroid_f64_above_maximum:
  "f64 (1 / 10) = tenth
   \<and> startup (Some workbook_tenth) = Inr tenth_ctx
   \<and> col_max (map Latitude (leader_rows tenth_ctx ''A'')) = Some tenth
   \<and> groupby_mean_f64 (df_eqp tenth_ctx)
       = Inr [(''A'', Some (7205759403792795 / 72057594037927936), Some (- 50))]
   \<and> tenth < 7205759403792795 / 72057594037927936"
proof -
  have 1: "f64 (1 / 10) = tenth"
    by (simp add: f64_defs tenth_def)
  have 2: "startup (Some workbook_tenth) = Inr tenth_ctx"
    by (simp add: load_defs workbook_tenth_def tenth_eqp_def tenth_ctx_def example_defs)
  have 3: "col_max (map Latitude (leader_rows tenth_ctx ''A'')) = Some tenth"
    by (simp add: leader_rows_def col_max_def tenth_ctx_def tenth_eqp_def point_def)
  have 4: "groupby_mean_f64 (df_eqp tenth_ctx)
       = Inr [(''A'', Some (7205759403792795 / 72057594037927936), Some (- 50))]"
    by (simp add: tenth_ctx_def tenth_eqp_def point_def tenth_def groupby_mean_f64_def
        group_step_f64_def kahan_tenth_1 kahan_tenth_2 kahan_tenth_3 kahan_fifty_1
        kahan_fifty_2 kahan_fifty_3 mean_tenth mean_fifty del: add_val_f64.simps)
  have 5: "tenth < 7205759403792795 / 72057594037927936"
    by (simp add: tenth_def)
  from 1 2 3 4 5 show ?thesis by blast
qed

subsection \<open>Properties of the map\<close>

lemma atas_trace_ok:
  assumes "''Latitude'' \<in> set (columns atas)" "''Longitude'' \<in> set (columns atas)"
  shows "\<exists>ts. atas_trace atas = Inr ts \<and> (\<forall>t \<in> set ts. \<not> is_star t)"
  using assms by (simp add: atas_trace_def getcol_def)

lemma equipment_trace_ok:
  assumes "''ATA_Lider'' \<in> set (columns eqp)" "''Longitude'' \<in> set (columns eqp)"
    "''Latitude'' \<in> set (columns eqp)" "''Serial'' \<in> set (columns eqp)"
    "''Modelo'' \<in> set (columns eqp)"
  shows "\<exists>t. equipment_trace eqp l = Inr t \<and> (\<forall>tr. t = Some tr \<longrightarrow> \<not> is_star tr)"
  using assms by (simp add: equipment_trace_def select_leader_def getcol_def)

lemma equipment_traces_ok:
  assumes "''ATA_Lider'' \<in> set (columns eqp)" "''Longitude'' \<in> set (columns eqp)"
    "''Latitude'' \<in> set (columns eqp)" "''Serial'' \<in> set (columns eqp)"
    "''Modelo'' \<in> set (columns eqp)"
  shows "\<exists>ts. equipment_traces eqp ls = Inr ts \<and> (\<forall>t \<in> set ts. \<not> is_star t)"
proof (induction ls)
  case Nil
  then show ?case by simp
next
  case (Cons l ls)
  from equipment_trace_ok [OF assms, of l] obtain t
    where t: "equipment_trace eqp l = Inr t" "\<forall>tr. t = Some tr \<longrightarrow> \<not> is_star tr" by blast
  from Cons.IH obtain ts
    where ts: "equipment_traces eqp ls = Inr ts" "\<forall>t \<in> set ts. \<not> is_star t" by blast
  show ?case using t ts by (cases t) auto
qed

lemma star_and_view_invalid:
  "\<not> valid_selection (leaders c) sel \<Longrightarrow>
   star_and_view c sel = Inr ([], default_lataxis, default_lonaxis)"
  by (simp add: star_and_view_def)

lemma filter_key_Nil:
  "map_of cs l = None \<Longrightarrow> filter (\<lambda>(k, la, lo). k = l) cs = []"
  by (induction cs) (auto split: if_splits)

lemma filter_key_Cons:
  "map_of cs l = Some (la, lo) \<Longrightarrow> \<exists>rest. filter (\<lambda>(k, la, lo). k = l) cs = (l, la, lo) # rest"
  by (induction cs) (auto split: if_splits)

lemma star_and_view_no_rows:
  assumes "startup file = Inr c" "leader_rows c l = []"
  shows "star_and_view c (Some l) = Inr ([], default_lataxis, default_lonaxis)"
proof -
  have "map_of (df_centroids c) l = None"
    using map_of_df_centroids [OF assms(1), of l] assms(2) by simp
  then have "filter (\<lambda>(k, la, lo). k = l) (df_centroids c) = []" by (rule filter_key_Nil)
  then show ?thesis by (simp add: star_and_view_def Let_def)
qed

lemma max_list_Max: "xs \<noteq> [] \<Longrightarrow> max_list xs = Max (set xs)"
  by (induction xs rule: max_list.induct) (auto split: list.splits)

lemma col_min_all:
  assumes "\<forall>r \<in> set g. f r \<noteq> None" "g \<noteq> []"
  shows "col_min (map f g) = Some (Min (set (List.map_filter f g)))"
proof -
  have "List.map_filter f g \<noteq> []"
    using length_map_filter_all [OF assms(1)] assms(2) by auto
  then show ?thesis by (simp add: col_min_def map_filter_id_map min_list_Min)
qed

lemma col_max_all:
  assumes "\<forall>r \<in> set g. f r \<noteq> None" "g \<noteq> []"
  shows "col_max (map f g) = Some (Max (set (List.map_filter f g)))"
proof -
  have "List.map_filter f g \<noteq> []"
    using length_map_filter_all [OF assms(1)] assms(2) by auto
  then show ?thesis by (simp add: col_max_def map_filter_id_map max_list_Max)
qed

lemma py_max_eq: "py_max (Some a) b = Some (max a b)"
  by (simp add: max_def)

lemma zoom_leader_rows:
  assumes "startup file = Inr c" "leader_rows c l \<noteq> []"
  shows "zoom (df_eqp c\<lparr>rows := leader_rows c l\<rparr>) =
     (let lats = List.map_filter Latitude (leader_rows c l);
          lons = List.map_filter Longitude (leader_rows c l);
          lat_pad = max ((Max (set lats) - Min (set lats)) * 0.20) 2;
          lon_pad = max ((Max (set lons) - Min (set lons)) * 0.20) 2
      in Inr ((Some (Min (set lats) - lat_pad), Some (Max (set lats) + lat_pad)),
              (Some (Min (set lons) - lon_pad), Some (Max (set lons) + lon_pad))))"
proof -
  have la: "\<forall>r \<in> set (leader_rows c l). Latitude r \<noteq> None"
    and lo: "\<forall>r \<in> set (leader_rows c l). Longitude r \<noteq> None"
    using startup_eqp_coords [OF assms(1)] by (auto simp: leader_rows_def)
  show ?thesis
    using startup_eqp_columns [OF assms(1)]
    by (simp add: zoom_def getcol_def Let_def col_min_all [OF la assms(2)]
        col_max_all [OF la assms(2)] col_min_all [OF lo assms(2)] col_max_all [OF lo assms(2)]
        py_max_eq)
qed

lemma star_and_view_rows:
  assumes "startup file = Inr c" "l \<in> set (leaders c)" "leader_rows c l \<noteq> []"
  shows "\<exists>star rng. is_star star \<and> zoom (df_eqp c\<lparr>rows := leader_rows c l\<rparr>) = Inr rng \<and>
           star_and_view c (Some l) = Inr ([star], fst rng, snd rng)"
proof -
  have v: "valid_selection (leaders c) (Some l)"
    using assms(2) startup_leaders_nonempty [OF assms(1)] by (auto simp: valid_selection_def)
  obtain la lo where "map_of (df_centroids c) l = Some (la, lo)"
    using map_of_df_centroids [OF assms(1), of l] assms(3) by simp
  then have "\<exists>rest. filter (\<lambda>(k, la, lo). k = l) (df_centroids c) = (l, la, lo) # rest"
    by (rule filter_key_Cons)
  then obtain rest where f: "filter (\<lambda>(k, la, lo). k = l) (df_centroids c) = (l, la, lo) # rest" ..
  obtain rng where z: "zoom (df_eqp c\<lparr>rows := leader_rows c l\<rparr>) = Inr rng"
    using zoom_leader_rows [OF assms(1,3)] by (simp add: Let_def)
  have ne: "\<not> empty_frame (df_eqp c\<lparr>rows := leader_rows c l\<rparr>)"
    using assms(3) startup_eqp_columns(1) [OF assms(1)] by (auto simp: empty_frame_def)
  have s: "select_leader (df_eqp c) l = Inr (df_eqp c\<lparr>rows := leader_rows c l\<rparr>)"
    using startup_eqp_columns(1) [OF assms(1)] by (simp add: select_leader_def leader_rows_def)
  show ?thesis
    using v f z ne s by (cases rng) (simp add: star_and_view_def Let_def)
qed

lemma build_map_eq:
  assumes "startup file = Inr c" "sheets_complete c"
    "star_and_view c sel = Inr (tC, lat_rng, lon_rng)"
  shows "\<exists>tAB. (\<forall>t \<in> set tAB. \<not> is_star t) \<and>
     build_map c sel = Inr \<lparr>fig_data = tAB @ tC, fig_title = None,
                            lataxis_range = Some lat_rng, lonaxis_range = Some lon_rng\<rparr>"
proof -
  from assms(2) obtain tA where tA: "atas_trace (df_atas c) = Inr tA" "\<forall>t \<in> set tA. \<not> is_star t"
    using atas_trace_ok [of "df_atas c"] by (auto simp: sheets_complete_def)
  from assms(2) startup_eqp_columns [OF assms(1)]
  obtain tB where tB: "equipment_traces (df_eqp c) (leaders c) = Inr tB" "\<forall>t \<in> set tB. \<not> is_star t"
    using equipment_traces_ok [of "df_eqp c" "leaders c"] by (auto simp: sheets_complete_def)
  have "build_map c sel = Inr \<lparr>fig_data = (tA @ tB) @ tC, fig_title = None,
                            lataxis_range = Some lat_rng, lonaxis_range = Some lon_rng\<rparr>"
    by (simp add: build_map_def tA(1) tB(1) assms(3))
  moreover have "\<forall>t \<in> set (tA @ tB). \<not> is_star t" using tA(2) tB(2) by auto
  ultimately show ?thesis by blast
qed

text \<open>
  Claim C1. After start-up, for a leader of the leader list with at least one equipment
  row, the map is built and its latitude range is \<open>[lat_min - lat_pad, lat_max + lat_pad]\<close>,
  its longitude range \<open>[lon_min - lon_pad, lon_max + lon_pad]\<close>, where the minima and
  maxima run over the coordinates of all rows of that leader and the pad of an axis is
  \<open>max (0.20 * (max - min)) 2\<close>. Whatever the extent of the points, each range is at
  least 4 degrees wide and has the midpoint of the bounding box as its midpoint; so it is
  for points that span 1 degree.
\<close>

theorem build_map_zoom:
  assumes "startup file = Inr c" "sheets_complete c" "l \<in> set (leaders c)"
    "leader_rows c l \<noteq> []"
  shows "\<exists>fig. build_map c (Some l) = Inr fig \<and>
     (let lats = List.map_filter Latitude (leader_rows c l);
          lons = List.map_filter Longitude (leader_rows c l);
          lat_min = Min (set lats); lat_max = Max (set lats);
          lon_min = Min (set lons); lon_max = Max (set lons);
          lat_pad = max (0.20 * (lat_max - lat_min)) 2;
          lon_pad = max (0.20 * (lon_max - lon_min)) 2
      in length lats = length (leader_rows c l) \<and> length lons = length (leader_rows c l) \<and>
         lataxis_range fig = Some (Some (lat_min - lat_pad), Some (lat_max + lat_pad)) \<and>
         lonaxis_range fig = Some (Some (lon_min - lon_pad), Some (lon_max + lon_pad)) \<and>
         4 \<le> (lat_max + lat_pad) - (lat_min - lat_pad) \<and>
         ((lat_min - lat_pad) + (lat_max + lat_pad)) / 2 = (lat_min + lat_max) / 2 \<and>
         4 \<le> (lon_max + lon_pad) - (lon_min - lon_pad) \<and>
         ((lon_min - lon_pad) + (lon_max + lon_pad)) / 2 = (lon_min + lon_max) / 2)"
proof -
  let ?lats = "List.map_filter Latitude (leader_rows c l)"
  let ?lons = "List.map_filter Longitude (leader_rows c l)"
  let ?lat_pad = "max (0.20 * (Max (set ?lats) - Min (set ?lats))) 2"
  let ?lon_pad = "max (0.20 * (Max (set ?lons) - Min (set ?lons))) 2"
  let ?lat_rng = "(Some (Min (set ?lats) - ?lat_pad), Some (Max (set ?lats) + ?lat_pad))"
  let ?lon_rng = "(Some (Min (set ?lons) - ?lon_pad), Some (Max (set ?lons) + ?lon_pad))"
  from star_and_view_rows [OF assms(1,3,4)] obtain star rng
    where z: "zoom (df_eqp c\<lparr>rows := leader_rows c l\<rparr>) = Inr rng"
      and s: "star_and_view c (Some l) = Inr ([star], fst rng, snd rng)" by blast
  have e: "zoom (df_eqp c\<lparr>rows := leader_rows c l\<rparr>) = Inr (?lat_rng, ?lon_rng)"
    unfolding zoom_leader_rows [OF assms(1,4)] Let_def by (simp only: mult.commute)
  from z [unfolded e] have "(?lat_rng, ?lon_rng) = rng" by (simp only: sum.inject)
  then have "rng = (?lat_rng, ?lon_rng)" by (rule sym)
  then have rng: "fst rng = ?lat_rng" "snd rng = ?lon_rng" by (simp_all only: fst_conv snd_conv)
  from build_map_eq [OF assms(1,2) s] obtain fig
    where b: "build_map c (Some l) = Inr fig" "lataxis_range fig = Some (fst rng)"
      "lonaxis_range fig = Some (snd rng)"
    by force
  have len: "length ?lats = length (leader_rows c l)" "length ?lons = length (leader_rows c l)"
    by (rule leader_rows_coords [OF assms(1)])+
  then have ne: "?lats \<noteq> []" "?lons \<noteq> []" using assms(4) by auto
  have le: "Min (set ?lats) \<le> Max (set ?lats)" "Min (set ?lons) \<le> Max (set ?lons)"
    using ne by simp_all
  have pad: "2 \<le> ?lat_pad" "2 \<le> ?lon_pad" by simp_all
  have w1: "4 \<le> (Max (set ?lats) + ?lat_pad) - (Min (set ?lats) - ?lat_pad)"
    using le(1) pad(1) by linarith
  have w2: "4 \<le> (Max (set ?lons) + ?lon_pad) - (Min (set ?lons) - ?lon_pad)"
    using le(2) pad(2) by linarith
  have c1: "((Min (set ?lats) - ?lat_pad) + (Max (set ?lats) + ?lat_pad)) / 2
      = (Min (set ?lats) + Max (set ?lats)) / 2" by simp
  have c2: "((Min (set ?lons) - ?lon_pad) + (Max (set ?lons) + ?lon_pad)) / 2
      = (Min (set ?lons) + Max (set ?lons)) / 2" by simp
  show ?thesis
    unfolding Let_def
    using b(1) b(2) [unfolded rng] b(3) [unfolded rng] len w1 w2 c1 c2 by blast
qed

text \<open>
  The theorem at leader \<open>A\<close> of the example, whose points span the latitudes
  \<open>-12 .. -10\<close> and the longitudes \<open>-52 .. -50\<close>.
\<close>

theorem build_map_zoom_witness:
  "startup (Some example_workbook) = Inr example_ctx \<and> sheets_complete example_ctx
   \<and> ''A'' \<in> set (leaders example_ctx) \<and> leader_rows example_ctx ''A'' \<noteq> []
   \<and> (\<exists>fig. build_map example_ctx (Some ''A'') = Inr fig
        \<and> lataxis_range fig = Some (Some (- 14), Some (- 8))
        \<and> lonaxis_range fig = Some (Some (- 54), Some (- 48)))"
proof -
  have h: "sheets_complete example_ctx" "''A'' \<in> set (leaders example_ctx)"
    "leader_rows example_ctx ''A'' \<noteq> []"
    by (simp_all add: sheets_complete_def leader_rows_def example_ctx_def example_defs)
  show ?thesis
    using build_map_zoom [OF startup_example h] h startup_example
    by (simp add: leader_rows_def example_ctx_def example_defs)
qed

text \<open>
  Claim C6. After start-up, a leader of the leader list without any equipment row has no
  row in the centroid table, and the map built for it has no star marker and the default
  ranges, latitude \<open>[-34, 6]\<close> and longitude \<open>[-75, -34]\<close>.
\<close>

theorem build_map_leader_without_rows:
  assumes "startup file = Inr c" "sheets_complete c" "l \<in> set (leaders c)"
    "leader_rows c l = []"
  shows "l \<notin> fst ` set (df_centroids c) \<and>
     (\<exists>fig. build_map c (Some l) = Inr fig \<and> (\<forall>t \<in> set (fig_data fig). \<not> is_star t) \<and>
        lataxis_range fig = Some (Some (- 34), Some 6) \<and>
        lonaxis_range fig = Some (Some (- 75), Some (- 34)))"
proof -
  have "map_of (df_centroids c) l = None"
    using map_of_df_centroids [OF assms(1), of l] assms(4) by simp
  then have 1: "l \<notin> fst ` set (df_centroids c)" by (simp add: map_of_eq_None_iff)
  from build_map_eq [OF assms(1,2) star_and_view_no_rows [OF assms(1,4)]]
  have "\<exists>fig. build_map c (Some l) = Inr fig \<and> (\<forall>t \<in> set (fig_data fig). \<not> is_star t) \<and>
        lataxis_range fig = Some (Some (- 34), Some 6) \<and>
        lonaxis_range fig = Some (Some (- 75), Some (- 34))"
    by (auto simp: default_lataxis_def default_lonaxis_def)
  with 1 show ?thesis by blast
qed

text \<open>The theorem at leader \<open>C\<close> of the example, which has no equipment.\<close>

theorem build_map_leader_without_rows_witness:
  "startup (Some example_workbook) = Inr example_ctx \<and> sheets_complete example_ctx
   \<and> ''C'' \<in> set (leaders example_ctx) \<and> leader_rows example_ctx ''C'' = []
   \<and> ''C'' \<notin> fst ` set (df_centroids example_ctx)
   \<and> (\<exists>fig. build_map example_ctx (Some ''C'') = Inr fig
        \<and> (\<forall>t \<in> set (fig_data fig). \<not> is_star t)
        \<and> lataxis_range fig = Some (Some (- 34), Some 6)
        \<and> lonaxis_range fig = Some (Some (- 75), Some (- 34)))"
proof -
  have h: "sheets_complete example_ctx" "''C'' \<in> set (leaders example_ctx)"
    "leader_rows example_ctx ''C'' = []"
    by (simp_all add: sheets_complete_def leader_rows_def example_ctx_def example_defs)
  show ?thesis
    using build_map_leader_without_rows [OF startup_example h] h startup_example
    by simp
qed

subsection \<open>Properties of the ranking of models\<close>

lemma keys_tally_add: "set (map fst (tally_add k t)) = insert k (set (map fst t))"
  by (induction k t rule: tally_add.induct) auto

lemma distinct_tally_add: "distinct (map fst t) \<Longrightarrow> distinct (map fst (tally_add k t))"
proof (induction k t rule: tally_add.induct)
  case (1 k)
  then show ?case by simp
next
  case (2 k k' n t)
  then show ?case using keys_tally_add [of k t] by auto
qed

lemma map_of_tally_add:
  "map_of (tally_add k t) k' =
     (if k' = k then Some (case map_of t k of None \<Rightarrow> 1 | Some n \<Rightarrow> Suc n) else map_of t k')"
  by (induction k t rule: tally_add.induct) auto

lemma sum_tally_add: "sum_list (map snd (tally_add k t)) = Suc (sum_list (map snd t))"
  by (induction k t rule: tally_add.induct) auto

lemma distinct_tally_fold:
  "distinct (map fst t) \<Longrightarrow> distinct (map fst (foldl tally_step t cells))"
  by (induction cells arbitrary: t) (auto simp: tally_step_def distinct_tally_add split: option.splits)

lemma sum_tally_fold:
  "sum_list (map snd (foldl tally_step t cells)) =
     sum_list (map snd t) + length (filter (\<lambda>v. v \<noteq> None) cells)"
  by (induction cells arbitrary: t) (auto simp: tally_step_def sum_tally_add split: option.splits)

lemma map_of_tally_fold:
  "map_of (foldl tally_step t cells) m =
     (if count_list cells (Some m) = 0 then map_of t m
      else Some (count_list cells (Some m) + (case map_of t m of None \<Rightarrow> 0 | Some n \<Rightarrow> n)))"
proof (induction cells arbitrary: t)
  case Nil
  then show ?case by simp
next
  case (Cons v vs)
  show ?case
  proof (cases "v = Some m")
    case True
    then have "map_of (tally_step t v) m = Some (case map_of t m of None \<Rightarrow> 1 | Some n \<Rightarrow> Suc n)"
      by (simp add: tally_step_def map_of_tally_add)
    then show ?thesis using True by (simp add: Cons.IH split: option.splits)
  next
    case False
    then have "map_of (tally_step t v) m = map_of t m"
      by (auto simp: tally_step_def map_of_tally_add split: option.splits)
    then show ?thesis using False by (simp add: Cons.IH)
  qed
qed

lemma distinct_tally: "distinct (map fst (tally cells))"
  by (simp add: tally_def distinct_tally_fold)

lemma sum_tally: "sum_list (map snd (tally cells)) = length (filter (\<lambda>v. v \<noteq> None) cells)"
  by (simp add: tally_def sum_tally_fold)

lemma map_of_tally:
  "map_of (tally cells) m =
     (if count_list cells (Some m) = 0 then None else Some (count_list cells (Some m)))"
  by (simp add: tally_def map_of_tally_fold)

lemma count_list_Modelo: "count_list (map Modelo rs) (Some m) = occurrences rs m"
  by (induction rs) (auto simp: occurrences_def)

lemma set_map_filter: "set (List.map_filter f xs) = {y. \<exists>x \<in> set xs. f x = Some y}"
  by (induction xs) (auto split: option.splits)

lemma occurrences_pos_iff: "0 < occurrences rs m \<longleftrightarrow> m \<in> model_names rs"
proof -
  have "0 < occurrences rs m \<longleftrightarrow> (\<exists>r \<in> set rs. Modelo r = Some m)"
    by (simp add: occurrences_def filter_empty_conv)
  also have "\<dots> \<longleftrightarrow> m \<in> model_names rs"
    by (simp add: model_names_def set_map_filter)
  finally show ?thesis .
qed

text \<open>What an admissible sort keeps.\<close>

lemma sorts_desc_mset: "sorts_desc srt \<Longrightarrow> mset (srt s) = mset s"
  by (simp add: sorts_desc_def)

lemma sorts_desc_sorted: "sorts_desc srt \<Longrightarrow> sorted_wrt (\<lambda>a b. snd b \<le> snd a) (srt s)"
  by (simp add: sorts_desc_def)

lemma mset_distinct_keys:
  assumes "mset s' = mset s" "distinct (map fst s)"
  shows "distinct (map fst s')"
proof -
  have "mset (map fst s') = mset (map fst s)" using assms(1) by (metis mset_map)
  then show ?thesis using assms(2) by (metis mset_eq_imp_distinct_iff)
qed

lemma mset_map_of:
  assumes "mset s' = mset s" "distinct (map fst s)"
  shows "map_of s' = map_of s"
  using assms mset_distinct_keys [OF assms] by (metis map_of_inject_set mset_eq_setD)

lemma mset_sum_snd:
  assumes "mset s' = mset s"
  shows "sum_list (map snd s') = sum_list (map (snd :: string \<times> nat \<Rightarrow> nat) s)"
proof -
  have "mset (map snd s') = mset (map snd s)" using assms by (metis mset_map)
  then show ?thesis by (metis sum_mset_sum_list)
qed

lemma ranking_mset: "sorts_desc srt \<Longrightarrow> mset (ranking srt rs) = mset (tally (map Modelo rs))"
  by (simp add: ranking_def value_counts_def sorts_desc_mset)

lemma ranking_distinct: "sorts_desc srt \<Longrightarrow> distinct (map fst (ranking srt rs))"
  using mset_distinct_keys [OF ranking_mset distinct_tally] by simp

lemma ranking_map_of:
  assumes "sorts_desc srt"
  shows "map_of (ranking srt rs) m = (if m \<in> model_names rs then Some (occurrences rs m) else None)"
proof -
  have "map_of (ranking srt rs) = map_of (tally (map Modelo rs))"
    by (rule mset_map_of [OF ranking_mset [OF assms] distinct_tally])
  moreover have "occurrences rs m = 0 \<longleftrightarrow> m \<notin> model_names rs"
    using occurrences_pos_iff [of rs m] by auto
  ultimately show ?thesis by (simp add: map_of_tally count_list_Modelo)
qed

lemma ranking_sorted: "sorts_desc srt \<Longrightarrow> sorted_wrt (\<lambda>a b. snd b \<le> snd a) (ranking srt rs)"
  by (simp add: ranking_def sorts_desc_sorted)

lemma ranking_sum:
  "sorts_desc srt \<Longrightarrow>
   sum_list (map snd (ranking srt rs)) = length (filter (\<lambda>r. Modelo r \<noteq> None) rs)"
  using mset_sum_snd [OF ranking_mset, of srt rs]
  by (simp add: sum_tally filter_map comp_def)

lemma ranking_keys: "sorts_desc srt \<Longrightarrow> set (map fst (ranking srt rs)) = model_names rs"
proof -
  assume a: "sorts_desc srt"
  have "\<And>m. m \<in> set (map fst (ranking srt rs)) \<longleftrightarrow> m \<in> model_names rs"
    using ranking_map_of [OF a, of rs] by (metis map_of_eq_None_iff option.distinct(1) set_map)
  then show ?thesis by blast
qed

lemma ranking_length: "sorts_desc srt \<Longrightarrow> length (ranking srt rs) = card (model_names rs)"
  using ranking_keys [of srt rs] ranking_distinct [of srt rs]
  by (metis distinct_card length_map)

lemma sorts_desc_stable: "sorts_desc sort_values_stable"
proof -
  have "sorted_wrt (\<lambda>a b. snd b \<le> snd a) (rev (sort_key snd (rev s)))" for s :: series
  proof -
    have "sorted (map snd (sort_key snd (rev s)))" by simp
    then have "sorted_wrt (\<lambda>a b. snd a \<le> snd b) (sort_key snd (rev s))"
      by (simp add: sorted_map)
    then show ?thesis by (simp add: sorted_wrt_rev)
  qed
  then show ?thesis by (simp add: sorts_desc_def sort_values_stable_def)
qed

subsection \<open>Properties of the callback and the distribution\<close>

lemma select_leader_eq:
  "''ATA_Lider'' \<in> set (columns (df_eqp c)) \<Longrightarrow>
   select_leader (df_eqp c) l = Inr (df_eqp c\<lparr>rows := leader_rows c l\<rparr>)"
  by (simp add: select_leader_def leader_rows_def)

lemma build_bars_pie_eq:
  assumes "startup file = Inr c" "''Modelo'' \<in> set (columns (df_eqp c))"
  shows "build_bars_pie srt c sel =
     Inr \<lparr>fig_data =
            [Bar (map fst (take 5 (ranking srt (selected_rows c sel))))
                 (map snd (take 5 (ranking srt (selected_rows c sel)))) ''Top 5 Modelos'',
             Pie (map fst (pie_parts (ranking srt (selected_rows c sel))))
                 (map snd (pie_parts (ranking srt (selected_rows c sel)))) ''Mix de Modelos''],
          fig_title = Some (if valid_selection (leaders c) sel
                            then ''Cluster '' @ the_default [] sel @ '': Top 5 Modelos e Mix''
                            else ''Brasil inteiro: Top 5 Modelos e Mix''),
          lataxis_range = None, lonaxis_range = None\<rparr>"
  using assms(2) startup_eqp_columns(1) [OF assms(1)]
  by (simp add: build_bars_pie_def select_leader_eq getcol_def selected_rows_def ranking_def Let_def)

lemma invalid_selection_same:
  assumes "l \<notin> set (leaders c)"
  shows "build_map c (Some l) = build_map c None"
    and "build_bars_pie srt c (Some l) = build_bars_pie srt c None"
    and "update_dashboard srt c (Some l) = update_dashboard srt c None"
proof -
  have v: "\<not> valid_selection (leaders c) (Some l)" "\<not> valid_selection (leaders c) None"
    using assms by (simp_all add: valid_selection_def)
  show 1: "build_map c (Some l) = build_map c None"
    by (simp add: build_map_def star_and_view_invalid [OF v(1)] star_and_view_invalid [OF v(2)])
  show 2: "build_bars_pie srt c (Some l) = build_bars_pie srt c None"
    using v by (simp add: build_bars_pie_def)
  show "update_dashboard srt c (Some l) = update_dashboard srt c None"
    using 1 2 by (simp add: update_dashboard_def Let_def)
qed

text \<open>
  Claim C4. After start-up, for a selection that is no leader of the leader list (the
  claim asks for a non-empty one; the empty string behaves the same), both builders and
  the callback return what they return with no selection at all, and they do return:
  the map has no star marker and the default ranges, and the distribution has the
  whole-country title and the series of all loaded equipment rows.
\<close>

theorem unknown_leader_is_no_selection:
  assumes "startup file = Inr c" "sheets_complete c" "l \<notin> set (leaders c)"
  shows "build_map c (Some l) = build_map c None \<and>
     build_bars_pie srt c (Some l) = build_bars_pie srt c None \<and>
     update_dashboard srt c (Some l) = update_dashboard srt c None \<and>
     (\<exists>m d. build_map c (Some l) = Inr m \<and> build_bars_pie srt c (Some l) = Inr d \<and>
        update_dashboard srt c (Some l) = Inr (m, d) \<and>
        (\<forall>t \<in> set (fig_data m). \<not> is_star t) \<and>
        lataxis_range m = Some (Some (- 34), Some 6) \<and>
        lonaxis_range m = Some (Some (- 75), Some (- 34)) \<and>
        fig_title d = Some ''Brasil inteiro: Top 5 Modelos e Mix'' \<and>
        fig_data d =
          [Bar (map fst (take 5 (ranking srt (rows (df_eqp c)))))
               (map snd (take 5 (ranking srt (rows (df_eqp c))))) ''Top 5 Modelos'',
           Pie (map fst (pie_parts (ranking srt (rows (df_eqp c)))))
               (map snd (pie_parts (ranking srt (rows (df_eqp c))))) ''Mix de Modelos''])"
proof -
  have v: "\<not> valid_selection (leaders c) (Some l)"
    using assms(3) by (simp add: valid_selection_def)
  from build_map_eq [OF assms(1,2) star_and_view_invalid [OF v]]
  obtain m where m: "build_map c (Some l) = Inr m" "\<forall>t \<in> set (fig_data m). \<not> is_star t"
    "lataxis_range m = Some (Some (- 34), Some 6)"
    "lonaxis_range m = Some (Some (- 75), Some (- 34))"
    by (auto simp: default_lataxis_def default_lonaxis_def)
  have mo: "''Modelo'' \<in> set (columns (df_eqp c))"
    using assms(2) by (simp add: sheets_complete_def)
  obtain d where d: "build_bars_pie srt c (Some l) = Inr d"
    "fig_title d = Some ''Brasil inteiro: Top 5 Modelos e Mix''"
    "fig_data d =
          [Bar (map fst (take 5 (ranking srt (rows (df_eqp c)))))
               (map snd (take 5 (ranking srt (rows (df_eqp c))))) ''Top 5 Modelos'',
           Pie (map fst (pie_parts (ranking srt (rows (df_eqp c)))))
               (map snd (pie_parts (ranking srt (rows (df_eqp c))))) ''Mix de Modelos'']"
    using v by (simp add: build_bars_pie_eq [OF assms(1) mo] selected_rows_def)
  have n: "build_map c None = Inr m" "build_bars_pie srt c None = Inr d"
    using invalid_selection_same(1,2) [OF assms(3)] m(1) d(1) by simp_all
  have u: "update_dashboard srt c (Some l) = Inr (m, d)"
    by (simp add: update_dashboard_def m(1) d(1) n)
  show ?thesis
    using invalid_selection_same [OF assms(3)] m d u by blast
qed

text \<open>
  The theorem at the example, for the selection \<open>Z\<close>.
\<close>

theorem unknown_leader_is_no_selection_witness:
  "startup (Some example_workbook) = Inr example_ctx \<and> sheets_complete example_ctx
   \<and> ''Z'' \<notin> set (leaders example_ctx)
   \<and> update_dashboard sort_values_stable example_ctx (Some ''Z'')
       = update_dashboard sort_values_stable example_ctx None
   \<and> (\<exists>m d. update_dashboard sort_values_stable example_ctx (Some ''Z'') = Inr (m, d)
        \<and> lataxis_range m = Some (Some (- 34), Some 6)
        \<and> fig_data d = [Bar [''M1'', ''M2''] [2, 1] ''Top 5 Modelos'',
                         Pie [''M1'', ''M2''] [2, 1] ''Mix de Modelos''])"
proof -
  have h: "sheets_complete example_ctx" "''Z'' \<notin> set (leaders example_ctx)"
    by (simp_all add: sheets_complete_def example_ctx_def example_defs)
  have r: "ranking sort_values_stable (rows (df_eqp example_ctx)) = [(''M1'', 2), (''M2'', 1)]"
    by (simp add: ranking_def render_defs example_ctx_def example_defs)
  from unknown_leader_is_no_selection [OF startup_example h, of sort_values_stable]
  obtain m d
    where e: "update_dashboard sort_values_stable example_ctx (Some ''Z'')
               = update_dashboard sort_values_stable example_ctx None"
      and u: "update_dashboard sort_values_stable example_ctx (Some ''Z'') = Inr (m, d)"
      and la: "lataxis_range m = Some (Some (- 34), Some 6)"
      and fd: "fig_data d =
          [Bar (map fst (take 5 (ranking sort_values_stable (rows (df_eqp example_ctx)))))
               (map snd (take 5 (ranking sort_values_stable (rows (df_eqp example_ctx)))))
               ''Top 5 Modelos'',
           Pie (map fst (pie_parts (ranking sort_values_stable (rows (df_eqp example_ctx)))))
               (map snd (pie_parts (ranking sort_values_stable (rows (df_eqp example_ctx)))))
               ''Mix de Modelos'']"
    by blast
  have "fig_data d = [Bar [''M1'', ''M2''] [2, 1] ''Top 5 Modelos'',
                      Pie [''M1'', ''M2''] [2, 1] ''Mix de Modelos'']"
    using fd by (simp add: r pie_parts_def)
  then show ?thesis using h startup_example e u la by blast
qed


lemma build_bars_pie_series:
  assumes "startup file = Inr c" "''Modelo'' \<in> set (columns (df_eqp c))"
  shows "\<exists>fig. build_bars_pie srt c sel = Inr fig \<and>
     bar_labels fig = map fst (take 5 (ranking srt (selected_rows c sel))) \<and>
     bar_values fig = map snd (take 5 (ranking srt (selected_rows c sel))) \<and>
     pie_labels fig = map fst (pie_parts (ranking srt (selected_rows c sel))) \<and>
     pie_values fig = map snd (pie_parts (ranking srt (selected_rows c sel)))"
  by (simp add: build_bars_pie_eq [OF assms] bar_labels_def bar_values_def pie_labels_def
      pie_values_def)

lemma ranking_entry:
  assumes "sorts_desc srt" "(m, n) \<in> set (ranking srt rs)"
  shows "m \<in> model_names rs" "n = occurrences rs m"
proof -
  have "map_of (ranking srt rs) m = Some n"
    using assms(2) ranking_distinct [OF assms(1)] by simp
  then show "m \<in> model_names rs" "n = occurrences rs m"
    by (simp_all add: ranking_map_of [OF assms(1)] split: if_splits)
qed

lemma top_of_ranking:
  assumes "sorts_desc srt"
  shows "length (map fst (take k (ranking srt rs))) = min k (card (model_names rs))"
    and "distinct (map fst (take k (ranking srt rs)))"
    and "\<forall>i < length (take k (ranking srt rs)).
           map snd (take k (ranking srt rs)) ! i
             = occurrences rs (map fst (take k (ranking srt rs)) ! i)"
    and "sorted_wrt (\<ge>) (map snd (take k (ranking srt rs)))"
    and "\<forall>m \<in> model_names rs - set (map fst (take k (ranking srt rs))).
           \<forall>n \<in> set (map snd (take k (ranking srt rs))). occurrences rs m \<le> n"
proof -
  let ?R = "ranking srt rs"
  show "length (map fst (take k ?R)) = min k (card (model_names rs))"
    by (simp add: ranking_length [OF assms] min.commute)
  show "distinct (map fst (take k ?R))"
    using ranking_distinct [OF assms, of rs] by (simp add: take_map [symmetric] distinct_take)
  show "\<forall>i < length (take k ?R).
           map snd (take k ?R) ! i = occurrences rs (map fst (take k ?R) ! i)"
  proof (intro allI impI)
    fix i assume i: "i < length (take k ?R)"
    then have "take k ?R ! i \<in> set ?R" by (metis in_set_takeD nth_mem)
    then have "(fst (take k ?R ! i), snd (take k ?R ! i)) \<in> set ?R" by simp
    from ranking_entry(2) [OF assms this] i
    show "map snd (take k ?R) ! i = occurrences rs (map fst (take k ?R) ! i)" by simp
  qed
  have s: "sorted_wrt (\<lambda>a b. snd b \<le> snd a) (take k ?R @ drop k ?R)"
    using ranking_sorted [OF assms, of rs] by simp
  then show "sorted_wrt (\<ge>) (map snd (take k ?R))"
    unfolding sorted_wrt_append by (simp add: sorted_wrt_map)
  show "\<forall>m \<in> model_names rs - set (map fst (take k ?R)).
           \<forall>n \<in> set (map snd (take k ?R)). occurrences rs m \<le> n"
  proof (intro ballI)
    fix m n
    assume m: "m \<in> model_names rs - set (map fst (take k ?R))"
      and n: "n \<in> set (map snd (take k ?R))"
    from m have "m \<in> model_names rs" by simp
    then have "m \<in> set (map fst ?R)" by (simp only: ranking_keys [OF assms])
    then obtain n' where e: "(m, n') \<in> set ?R" by auto
    then have n': "n' = occurrences rs m" by (rule ranking_entry(2) [OF assms])
    have "(m, n') \<notin> set (take k ?R)" using m by force
    with e have d: "(m, n') \<in> set (drop k ?R)"
      by (metis Un_iff append_take_drop_id set_append)
    from n obtain a where a: "a \<in> set (take k ?R)" "snd a = n" by auto
    from s a(1) d have "snd (m, n') \<le> snd a" unfolding sorted_wrt_append by blast
    then show "occurrences rs m \<le> n" using a(2) n' by simp
  qed
qed

text \<open>
  Claim C8. For every selection and every admissible sort, the bar series of the
  distribution lists distinct model names of the selected rows, as many as there are but
  at most five, each with the number of selected rows that carry it, in descending order
  of that number; and no model left out occurs more often than one that is shown.
\<close>

theorem bar_series_top5:
  assumes "startup file = Inr c" "''Modelo'' \<in> set (columns (df_eqp c))" "sorts_desc srt"
  shows "\<exists>fig. build_bars_pie srt c sel = Inr fig \<and>
     (let rs = selected_rows c sel; x = bar_labels fig; y = bar_values fig
      in length x = min 5 (card (model_names rs)) \<and> length y = length x \<and>
         distinct x \<and> set x \<subseteq> model_names rs \<and>
         (\<forall>i < length x. y ! i = occurrences rs (x ! i)) \<and>
         sorted_wrt (\<ge>) y \<and>
         (\<forall>m \<in> model_names rs - set x. \<forall>n \<in> set y. occurrences rs m \<le> n))"
proof -
  let ?rs = "selected_rows c sel"
  let ?T = "take 5 (ranking srt ?rs)"
  from build_bars_pie_series [OF assms(1,2), of srt sel] obtain fig
    where f: "build_bars_pie srt c sel = Inr fig" "bar_labels fig = map fst ?T"
      "bar_values fig = map snd ?T" by blast
  have sub: "set (map fst ?T) \<subseteq> model_names ?rs"
  proof
    fix m assume "m \<in> set (map fst ?T)"
    then have "m \<in> set (map fst (ranking srt ?rs))"
      by (metis in_set_takeD take_map)
    then show "m \<in> model_names ?rs" by (simp only: ranking_keys [OF assms(3)])
  qed
  have len: "length (map snd ?T) = length (map fst ?T)" by simp
  have nth: "\<forall>i < length (map fst ?T). map snd ?T ! i = occurrences ?rs (map fst ?T ! i)"
    using top_of_ranking(3) [OF assms(3), where k = 5 and rs = ?rs] by simp
  note facts = top_of_ranking(1,2,4,5) [OF assms(3), where k = 5 and rs = ?rs] sub len nth
  show ?thesis
    unfolding Let_def using f(1) facts [folded f(2) f(3)] by blast
qed


lemma startup_nine_models: "startup (Some workbook_nine_models) = Inr nine_models_ctx"
  by (simp add: load_defs workbook_nine_models_def nine_models_eqp_def nine_models_ctx_def
      example_defs)

lemma build_bars_pie_nine_models:
  "build_bars_pie sort_values_stable nine_models_ctx None = Inr nine_models_figure"
  by (simp add: render_defs nine_models_ctx_def nine_models_eqp_def nine_models_figure_def
      example_defs)

lemma selected_rows_nine_models: "selected_rows nine_models_ctx None = rows nine_models_eqp"
  by (simp add: selected_rows_def valid_selection_def nine_models_ctx_def)

text \<open>
  The theorem at ten rows with nine model names, \<open>M1\<close> twice and the others once: the
  bar series has five entries, \<open>M1\<close> first.
\<close>

theorem bar_series_top5_witness:
  "startup (Some workbook_nine_models) = Inr nine_models_ctx
   \<and> ''Modelo'' \<in> set (columns (df_eqp nine_models_ctx)) \<and> sorts_desc sort_values_stable
   \<and> build_bars_pie sort_values_stable nine_models_ctx None = Inr nine_models_figure
   \<and> length (bar_labels nine_models_figure) = 5
   \<and> distinct (bar_labels nine_models_figure)
   \<and> sorted_wrt (\<ge>) (bar_values nine_models_figure)
   \<and> bar_values nine_models_figure ! 0
       = occurrences (rows nine_models_eqp) (bar_labels nine_models_figure ! 0)"
proof -
  have h: "''Modelo'' \<in> set (columns (df_eqp nine_models_ctx))"
    by (simp add: nine_models_ctx_def nine_models_eqp_def)
  have n: "card (model_names (rows nine_models_eqp)) = 9"
    by (simp add: model_names_def nine_models_eqp_def point_def card_insert_if)
  from bar_series_top5 [OF startup_nine_models h sorts_desc_stable, of None]
  have "length (bar_labels nine_models_figure) = 5
      \<and> distinct (bar_labels nine_models_figure)
      \<and> sorted_wrt (\<ge>) (bar_values nine_models_figure)
      \<and> bar_values nine_models_figure ! 0
          = occurrences (rows nine_models_eqp) (bar_labels nine_models_figure ! 0)"
    unfolding build_bars_pie_nine_models selected_rows_nine_models Let_def n by auto
  with startup_nine_models h sorts_desc_stable build_bars_pie_nine_models show ?thesis
    by blast
qed

lemma pie_parts_short: "length R \<le> 8 \<Longrightarrow> pie_parts R = R"
  by (simp add: pie_parts_def)

lemma pie_parts_fresh:
  assumes "8 < length R" "''Outros'' \<notin> fst ` set (take 8 R)"
  shows "pie_parts R = take 8 R @ [(''Outros'', sum_list (map snd (drop 8 R)))]"
  using assms by (simp add: pie_parts_def set_loc_def Let_def)

lemma pie_parts_collision:
  assumes "8 < length R" "''Outros'' \<in> fst ` set (take 8 R)"
  shows "map fst (pie_parts R) = map fst (take 8 R)"
  using assms by (simp add: pie_parts_def set_loc_def Let_def comp_def case_prod_unfold)

lemma pie_parts_sum:
  assumes "length R \<le> 8 \<or> ''Outros'' \<notin> set (take 8 (map fst (pie_parts R)))"
  shows "sum_list (map snd (pie_parts R)) = sum_list (map snd R)"
proof (cases "length R \<le> 8")
  case True
  then show ?thesis by (simp add: pie_parts_short)
next
  case False
  then have long: "8 < length R" by simp
  have fresh: "''Outros'' \<notin> fst ` set (take 8 R)"
  proof
    assume c: "''Outros'' \<in> fst ` set (take 8 R)"
    have "take 8 (map fst (pie_parts R)) = map fst (take 8 R)"
      using long by (simp add: pie_parts_collision [OF long c])
    with c assms False show False by simp
  qed
  have "sum_list (map snd (pie_parts R))
      = sum_list (map snd (take 8 R)) + sum_list (map snd (drop 8 R))"
    by (simp add: pie_parts_fresh [OF long fresh])
  also have "\<dots> = sum_list (map snd (take 8 R @ drop 8 R))"
    by (simp only: map_append sum_list_append)
  finally show ?thesis by (simp only: append_take_drop_id)
qed

text \<open>
  What the pie is when no selected row has the model name \<open>Outros\<close>: the whole ranking
  if it has at most eight entries, and otherwise its first eight entries followed by one
  entry \<open>Outros\<close> with the sum of the remaining counts.
\<close>

lemma pie_series_without_outros_model:
  assumes "startup file = Inr c" "''Modelo'' \<in> set (columns (df_eqp c))" "sorts_desc srt"
    "''Outros'' \<notin> model_names (selected_rows c sel)"
  shows "\<exists>fig. build_bars_pie srt c sel = Inr fig \<and>
     (let R = ranking srt (selected_rows c sel) in
      if 8 < card (model_names (selected_rows c sel))
      then pie_labels fig = map fst (take 8 R) @ [''Outros''] \<and>
           pie_values fig = map snd (take 8 R) @ [sum_list (map snd (drop 8 R))]
      else pie_labels fig = map fst R \<and> pie_values fig = map snd R)"
proof -
  let ?R = "ranking srt (selected_rows c sel)"
  from build_bars_pie_series [OF assms(1,2), of srt sel] obtain fig
    where f: "build_bars_pie srt c sel = Inr fig" "pie_labels fig = map fst (pie_parts ?R)"
      "pie_values fig = map snd (pie_parts ?R)" by blast
  have keys: "set (map fst ?R) = model_names (selected_rows c sel)"
    by (rule ranking_keys [OF assms(3)])
  have fresh: "''Outros'' \<notin> fst ` set (take 8 ?R)"
  proof
    assume "''Outros'' \<in> fst ` set (take 8 ?R)"
    then obtain p where p: "p \<in> set (take 8 ?R)" "fst p = ''Outros''" by force
    from p(1) have "p \<in> set ?R" by (rule in_set_takeD)
    with p(2) have "''Outros'' \<in> set (map fst ?R)" by force
    with keys assms(4) show False by blast
  qed
  have len: "length ?R = card (model_names (selected_rows c sel))"
    by (rule ranking_length [OF assms(3)])
  show ?thesis
  proof (cases "8 < length ?R")
    case True
    have "pie_parts ?R = take 8 ?R @ [(''Outros'', sum_list (map snd (drop 8 ?R)))]"
      by (rule pie_parts_fresh [OF True fresh])
    then have "pie_labels fig = map fst (take 8 ?R) @ [''Outros'']"
      "pie_values fig = map snd (take 8 ?R) @ [sum_list (map snd (drop 8 ?R))]"
      by (simp_all add: f(2,3))
    with True f(1) show ?thesis unfolding Let_def len [symmetric] by auto
  next
    case False
    then have "pie_parts ?R = ?R" by (simp add: pie_parts_short)
    then have "pie_labels fig = map fst ?R" "pie_values fig = map snd ?R"
      by (simp_all add: f(2,3))
    with False f(1) show ?thesis unfolding Let_def len [symmetric] by auto
  qed
qed

text \<open>
  Claim C10, as the code has it. For every selection and every admissible sort, the
  values of the pie add up to the number of selected rows that have a model name, as long
  as the selection has at most eight model names or \<open>Outros\<close> is not the label of one
  of the first eight slices. Rows with a blank model cell are not counted by
  \<^verbatim>\<open>value_counts()\<close>; what happens when a model of the first eight is itself called
  \<open>Outros\<close> is left open here.
\<close>

theorem pie_total_named_rows:
  assumes "startup file = Inr c" "''Modelo'' \<in> set (columns (df_eqp c))" "sorts_desc srt"
  shows "\<exists>fig. build_bars_pie srt c sel = Inr fig \<and>
     (card (model_names (selected_rows c sel)) \<le> 8
        \<or> ''Outros'' \<notin> set (take 8 (pie_labels fig))
      \<longrightarrow> sum_list (pie_values fig)
            = length (filter (\<lambda>r. Modelo r \<noteq> None) (selected_rows c sel)))"
proof -
  let ?R = "ranking srt (selected_rows c sel)"
  from build_bars_pie_series [OF assms(1,2), of srt sel] obtain fig
    where f: "build_bars_pie srt c sel = Inr fig" "pie_labels fig = map fst (pie_parts ?R)"
      "pie_values fig = map snd (pie_parts ?R)" by blast
  have "sum_list (pie_values fig) = length (filter (\<lambda>r. Modelo r \<noteq> None) (selected_rows c sel))"
    if "card (model_names (selected_rows c sel)) \<le> 8 \<or> ''Outros'' \<notin> set (take 8 (pie_labels fig))"
  proof -
    from that have "length ?R \<le> 8 \<or> ''Outros'' \<notin> set (take 8 (map fst (pie_parts ?R)))"
      by (simp add: ranking_length [OF assms(3)] f(2))
    then show ?thesis
      by (simp add: f(3) pie_parts_sum ranking_sum [OF assms(3)])
  qed
  with f(1) show ?thesis by blast
qed

text \<open>
  The theorem at ten rows with nine model names, none of them \<open>Outros\<close>: the pie
  has the eight most frequent models and the slice \<open>Outros\<close> for the ninth, and its
  values add up to ten.
\<close>

theorem pie_total_named_rows_witness:
  "startup (Some workbook_nine_models) = Inr nine_models_ctx
   \<and> ''Modelo'' \<in> set (columns (df_eqp nine_models_ctx)) \<and> sorts_desc sort_values_stable
   \<and> build_bars_pie sort_values_stable nine_models_ctx None = Inr nine_models_figure
   \<and> ''Outros'' \<notin> set (take 8 (pie_labels nine_models_figure))
   \<and> sum_list (pie_values nine_models_figure) = length (rows nine_models_eqp)"
proof -
  have h: "''Modelo'' \<in> set (columns (df_eqp nine_models_ctx))"
    by (simp add: nine_models_ctx_def nine_models_eqp_def)
  have o: "''Outros'' \<notin> set (take 8 (pie_labels nine_models_figure))"
    by (simp add: pie_labels_def nine_models_figure_def)
  have k: "filter (\<lambda>r. Modelo r \<noteq> None) (rows nine_models_eqp) = rows nine_models_eqp"
    by (simp add: nine_models_eqp_def point_def)
  from pie_total_named_rows [OF startup_nine_models h sorts_desc_stable, of None] o
  have "sum_list (pie_values nine_models_figure) = length (rows nine_models_eqp)"
    unfolding build_bars_pie_nine_models selected_rows_nine_models k by simp
  with startup_nine_models h sorts_desc_stable build_bars_pie_nine_models o show ?thesis
    by blast
qed

text \<open>
  Claim C10 as stated does not hold: with one blank model cell among four loaded rows
  the pie values are \<open>2\<close> and \<open>1\<close>, which add up to three.
\<close>

theorem pie_total_rows_counterexample:
  "startup (Some workbook_blank_model) = Inr blank_model_ctx
   \<and> build_bars_pie sort_values_stable blank_model_ctx None = Inr blank_model_figure
   \<and> sum_list (pie_values blank_model_figure) = 3
   \<and> length (selected_rows blank_model_ctx None) = 4"
  by (simp add: load_defs render_defs workbook_blank_model_def blank_model_eqp_def example_defs
      blank_model_ctx_def blank_model_figure_def selected_rows_def pie_values_def)

text \<open>
  Claim C2 fails on the code. Ten rows carry nine model names, \<open>Outros\<close> twice and
  \<open>M1\<close> to \<open>M8\<close> once each. The ranking has nine entries, so the remainder (the ninth
  entry, count 1) is summed and assigned to the label \<open>Outros\<close>; that label is already
  the first of the eight slices kept, so the assignment overwrites its count 2 with 1 and
  appends nothing. The pie has eight slices and not nine, and two rows are lost. The
  models \<open>M1\<close> to \<open>M8\<close> tie; another admissible sort changes which of them is ninth and
  nothing else.
\<close>

theorem pie_outros_overwritten:
  "startup (Some workbook_outros) = Inr outros_ctx
   \<and> build_bars_pie sort_values_stable outros_ctx None = Inr outros_figure
   \<and> card (model_names (selected_rows outros_ctx None)) = 9
   \<and> length (selected_rows outros_ctx None) = 10
   \<and> length (pie_labels outros_figure) = 8
   \<and> sum_list (pie_values outros_figure) = 8"
  by (simp add: load_defs render_defs workbook_outros_def outros_eqp_def example_defs
      outros_ctx_def outros_figure_def selected_rows_def pie_labels_def pie_values_def
      model_names_def card_insert_if)

end
